theory Spec2Isabelle
  imports Complex_Main "HOL-Library.Multiset"
begin

section \<open>MLO simulation test runners: matrix expansion, execution and result collection\<close>

text \<open>
  A shallow embedding of \<^verbatim>\<open>testing_script.py\<close> (class \<^verbatim>\<open>MLOSimulationRunner\<close>) and
  \<^verbatim>\<open>testing_script_extreme.py\<close> (class \<^verbatim>\<open>MLOExtremeSimulationRunner\<close>).
  Python's unbounded integers are \<^typ>\<open>int\<close>, \<^verbatim>\<open>str\<close> is \<^typ>\<open>string\<close>, the ordered
  dictionary of scenarios is an association list, an exception is a value of
  \<^verbatim>\<open>py_error\<close> on the left of a sum.
\<close>

subsection \<open>Python built-ins used by the runners\<close>

datatype py_error = IndexError | ValueError

text \<open>\<^verbatim>\<open>str(n)\<close> for an integer: decimal digits, a leading minus sign for a negative one.\<close>

definition digit_char :: "nat \<Rightarrow> char" where
  "digit_char d = ''0123456789'' ! d"

fun str_nat :: "nat \<Rightarrow> string" where
  "str_nat n = (if n < 10 then [digit_char n] else str_nat (n div 10) @ [digit_char (n mod 10)])"

declare str_nat.simps [simp del]

definition str_int :: "int \<Rightarrow> string" where
  "str_int i = (if i < 0 then CHR ''-'' # str_nat (nat (- i)) else str_nat (nat i))"

text \<open>
  \<^verbatim>\<open>s.split(sep)\<close> for a one-character separator: the pieces between the separators, in
  order; a string without the separator is its own single piece.
\<close>

fun split_on :: "char \<Rightarrow> string \<Rightarrow> string list" where
  "split_on sep [] = [[]]"
| "split_on sep (c # cs) =
     (if c = sep then [] # split_on sep cs
      else (case split_on sep cs of
              [] \<Rightarrow> [[c]]
            | p # ps \<Rightarrow> (c # p) # ps))"

text \<open>
  \<^verbatim>\<open>int(s)\<close> on a string of decimal digits. The runners only apply it to the time part of
  a \<^verbatim>\<open>strftime("%Y%m%d_%H%M%S")\<close> text, which is such a string; any other string is
  reported as \<^verbatim>\<open>ValueError\<close> here (Python also accepts a sign and surrounding blanks).
\<close>

definition digit_val :: "char \<Rightarrow> nat option" where
  "digit_val c =
     (if c \<in> set ''0123456789'' then Some (of_char c - 48) else None)"

fun digits_val :: "nat \<Rightarrow> string \<Rightarrow> nat option" where
  "digits_val acc [] = Some acc"
| "digits_val acc (c # cs) =
     (case digit_val c of
        None \<Rightarrow> None
      | Some d \<Rightarrow> digits_val (10 * acc + d) cs)"

definition py_int :: "string \<Rightarrow> py_error + int" where
  "py_int s =
     (if s = [] then Inl ValueError
      else (case digits_val 0 s of
              None \<Rightarrow> Inl ValueError
            | Some n \<Rightarrow> Inr (int n)))"

text \<open>\<^verbatim>\<open>sep.join(xs)\<close>.\<close>

fun join :: "string \<Rightarrow> string list \<Rightarrow> string" where
  "join sep [] = []"
| "join sep [x] = x"
| "join sep (x # y # ys) = x @ sep @ join sep (y # ys)"

text \<open>
  \<^verbatim>\<open>selection or default\<close> on an optional list argument: \<^verbatim>\<open>None\<close> and the empty list
  are both falsy, so both give the default.
\<close>

definition or_else :: "'a list option \<Rightarrow> 'a list \<Rightarrow> 'a list" where
  "or_else selection dflt =
     (case selection of
        None \<Rightarrow> dflt
      | Some [] \<Rightarrow> dflt
      | Some (x # xs) \<Rightarrow> x # xs)"

subsection \<open>Paths\<close>

text \<open>
  A \<^verbatim>\<open>pathlib.Path\<close> is its anchor (rooted or not) and its components.
  \<^verbatim>\<open>path / s\<close> is modelled for an operand \<open>s\<close> that is a single component, which is
  how the runners use it: the operands are fixed directory and file names and the log
  file name. \<^verbatim>\<open>str(path)\<close> joins the components with a slash; the empty relative path
  prints as a dot.
\<close>

record py_path =
  rooted :: bool
  parts :: "string list"

definition path_div :: "py_path \<Rightarrow> string \<Rightarrow> py_path" where
  "path_div p s = p\<lparr>parts := parts p @ [s]\<rparr>"

definition path_str :: "py_path \<Rightarrow> string" where
  "path_str p =
     (if rooted p then ''/'' @ join ''/'' (parts p)
      else if parts p = [] then ''.''
      else join ''/'' (parts p))"

subsection \<open>The scenario catalog\<close>

record test_config =
  name :: string
  params :: string
  description :: string

record category =
  category_description :: string
  tests :: "test_config list"

definition baseline_tests :: "test_config list" where
  "baseline_tests =
   [\<lparr>name = ''normal_load_critical_high'',
      params = ''--nWifi=20 --tidCount=24 --criticalTids=0 --emergencyTids=24 --simtime=30 --dataRate=100Mbps'',
      description = ''Normal load - Emergency TIDs with Ultra-Critical SLA (1ms threshold)''\<rparr>,
    \<lparr>name = ''normal_load_critical_basic'',
      params = ''--nWifi=20 --tidCount=24 --criticalTids=24 --emergencyTids=0 --simtime=30 --dataRate=100Mbps'',
      description = ''Normal load - Critical Basic SLA (All Critical TIDs)''\<rparr>,
    \<lparr>name = ''normal_load_non_critical'',
      params = ''--nWifi=20 --tidCount=24 --criticalTids=0 --emergencyTids=0 --simtime=30 --dataRate=100Mbps'',
      description = ''Normal load - Non Critical SLA (All Non-Critical TIDs)''\<rparr>,
    \<lparr>name = ''normal_load_mixed_tid'',
      params = ''--nWifi=20 --tidCount=24 --criticalTids=8 --emergencyTids=8 --simtime=30 --dataRate=100Mbps'',
      description = ''Normal load - Mixed TID (Emergency + Critical + Non-Critical)''\<rparr>,
    \<lparr>name = ''high_load_critical_high'',
      params = ''--nWifi=30 --tidCount=36 --criticalTids=0 --emergencyTids=36 --simtime=30 --dataRate=150Mbps'',
      description = ''High load - Emergency TIDs with Ultra-Critical SLA (1ms threshold)''\<rparr>,
    \<lparr>name = ''high_load_critical_basic'',
      params = ''--nWifi=30 --tidCount=36 --criticalTids=36 --emergencyTids=0 --simtime=30 --dataRate=150Mbps'',
      description = ''High load - Critical Basic SLA (All Critical TIDs)''\<rparr>,
    \<lparr>name = ''high_load_non_critical'',
      params = ''--nWifi=30 --tidCount=36 --criticalTids=0 --emergencyTids=0 --simtime=30 --dataRate=150Mbps'',
      description = ''High load - Non Critical SLA (All Non-Critical TIDs)''\<rparr>,
    \<lparr>name = ''high_load_mixed_tid'',
      params = ''--nWifi=30 --tidCount=36 --criticalTids=12 --emergencyTids=12 --simtime=30 --dataRate=150Mbps'',
      description = ''High load - Mixed TID (Emergency + Critical + Non-Critical)''\<rparr>,
    \<lparr>name = ''mixed_traffic_critical_high'',
      params = ''--nWifi=25 --tidCount=32 --criticalTids=0 --emergencyTids=32 --simtime=30 --dataRate=120Mbps'',
      description = ''Mixed traffic - Emergency TIDs with Ultra-Critical SLA (1ms threshold)''\<rparr>,
    \<lparr>name = ''mixed_traffic_critical_basic'',
      params = ''--nWifi=25 --tidCount=32 --criticalTids=32 --emergencyTids=0 --simtime=30 --dataRate=120Mbps'',
      description = ''Mixed traffic - Critical Basic SLA (All Critical TIDs)''\<rparr>,
    \<lparr>name = ''mixed_traffic_non_critical'',
      params = ''--nWifi=25 --tidCount=32 --criticalTids=0 --emergencyTids=0 --simtime=30 --dataRate=120Mbps'',
      description = ''Mixed traffic - Non Critical SLA (All Non-Critical TIDs)''\<rparr>,
    \<lparr>name = ''mixed_traffic_mixed_tid'',
      params = ''--nWifi=25 --tidCount=32 --criticalTids=11 --emergencyTids=11 --simtime=30 --dataRate=120Mbps'',
      description = ''Mixed traffic - Mixed TID (Emergency + Critical + Non-Critical)''\<rparr>]"

definition interference_tests :: "test_config list" where
  "interference_tests =
   [\<lparr>name = ''low_interference_critical_high'',
      params = ''--nWifi=20 --tidCount=24 --criticalTids=0 --emergencyTids=24 --simtime=30 --interference=true --interferenceIntensity=0.3'',
      description = ''Low interference - Emergency TIDs with Ultra-Critical SLA (1ms threshold)''\<rparr>,
    \<lparr>name = ''low_interference_critical_basic'',
      params = ''--nWifi=20 --tidCount=24 --criticalTids=24 --emergencyTids=0 --simtime=30 --interference=true --interferenceIntensity=0.3'',
      description = ''Low interference - Critical Basic SLA (All Critical TIDs)''\<rparr>,
    \<lparr>name = ''low_interference_non_critical'',
      params = ''--nWifi=20 --tidCount=24 --criticalTids=0 --emergencyTids=0 --simtime=30 --interference=true --interferenceIntensity=0.3'',
      description = ''Low interference - Non Critical SLA (All Non-Critical TIDs)''\<rparr>,
    \<lparr>name = ''low_interference_mixed_tid'',
      params = ''--nWifi=20 --tidCount=24 --criticalTids=8 --emergencyTids=8 --simtime=30 --interference=true --interferenceIntensity=0.3'',
      description = ''Low interference - Mixed TID (Emergency + Critical + Non-Critical)''\<rparr>,
    \<lparr>name = ''medium_interference_critical_high'',
      params = ''--nWifi=20 --tidCount=24 --criticalTids=0 --emergencyTids=24 --simtime=30 --interference=true --interferenceIntensity=0.6'',
      description = ''Medium interference - Emergency TIDs with Ultra-Critical SLA (1ms threshold)''\<rparr>,
    \<lparr>name = ''medium_interference_critical_basic'',
      params = ''--nWifi=20 --tidCount=24 --criticalTids=24 --emergencyTids=0 --simtime=30 --interference=true --interferenceIntensity=0.6'',
      description = ''Medium interference - Critical Basic SLA (All Critical TIDs)''\<rparr>,
    \<lparr>name = ''medium_interference_non_critical'',
      params = ''--nWifi=20 --tidCount=24 --criticalTids=0 --emergencyTids=0 --simtime=30 --interference=true --interferenceIntensity=0.6'',
      description = ''Medium interference - Non Critical SLA (All Non-Critical TIDs)''\<rparr>,
    \<lparr>name = ''medium_interference_mixed_tid'',
      params = ''--nWifi=20 --tidCount=24 --criticalTids=8 --emergencyTids=8 --simtime=30 --interference=true --interferenceIntensity=0.6'',
      description = ''Medium interference - Mixed TID (Emergency + Critical + Non-Critical)''\<rparr>]"

definition failure_recovery_tests :: "test_config list" where
  "failure_recovery_tests =
   [\<lparr>name = ''random_failures_mixed_tid'',
      params = ''--nWifi=20 --tidCount=24 --criticalTids=8 --emergencyTids=8 --simtime=40 --linkFailureRate=0.1 --enableFailureRecovery=true'',
      description = ''Random failures (10% chance per second) - Mixed TID''\<rparr>]"

definition mobility_tests :: "test_config list" where
  "mobility_tests =
   [\<lparr>name = ''static_nodes_critical_high'',
      params = ''--nWifi=20 --tidCount=24 --criticalTids=0 --emergencyTids=24 --simtime=30 --mobility=false'',
      description = ''Static topology - Critical High SLA (All Emergency TIDs)''\<rparr>,
    \<lparr>name = ''static_nodes_critical_basic'',
      params = ''--nWifi=20 --tidCount=24 --criticalTids=24 --emergencyTids=0 --simtime=30 --mobility=false'',
      description = ''Static topology - Critical Basic SLA (All Critical TIDs)''\<rparr>,
    \<lparr>name = ''static_nodes_non_critical'',
      params = ''--nWifi=20 --tidCount=24 --criticalTids=0 --emergencyTids=0 --simtime=30 --mobility=false'',
      description = ''Static topology - Non Critical SLA (All Non-Critical TIDs)''\<rparr>,
    \<lparr>name = ''static_nodes_mixed_tid'',
      params = ''--nWifi=20 --tidCount=24 --criticalTids=8 --emergencyTids=8 --simtime=30 --mobility=false'',
      description = ''Static topology - Mixed TID (Emergency + Critical + Non-Critical)''\<rparr>,
    \<lparr>name = ''low_mobility_critical_high'',
      params = ''--nWifi=20 --tidCount=24 --criticalTids=0 --emergencyTids=24 --simtime=35 --mobility=true --mobilitySpeed=2.0'',
      description = ''Low mobility - Critical High SLA (All Emergency TIDs)''\<rparr>,
    \<lparr>name = ''low_mobility_critical_basic'',
      params = ''--nWifi=20 --tidCount=24 --criticalTids=24 --emergencyTids=0 --simtime=35 --mobility=true --mobilitySpeed=2.0'',
      description = ''Low mobility - Critical Basic SLA (All Critical TIDs)''\<rparr>,
    \<lparr>name = ''low_mobility_non_critical'',
      params = ''--nWifi=20 --tidCount=24 --criticalTids=0 --emergencyTids=0 --simtime=35 --mobility=true --mobilitySpeed=2.0'',
      description = ''Low mobility - Non Critical SLA (All Non-Critical TIDs)''\<rparr>,
    \<lparr>name = ''low_mobility_mixed_tid'',
      params = ''--nWifi=20 --tidCount=24 --criticalTids=8 --emergencyTids=8 --simtime=35 --mobility=true --mobilitySpeed=2.0'',
      description = ''Low mobility - Mixed TID (Emergency + Critical + Non-Critical)''\<rparr>,
    \<lparr>name = ''medium_mobility_critical_high'',
      params = ''--nWifi=20 --tidCount=24 --criticalTids=0 --emergencyTids=24 --simtime=35 --mobility=true --mobilitySpeed=5.0'',
      description = ''Medium mobility - Critical High SLA (All Emergency TIDs)''\<rparr>,
    \<lparr>name = ''medium_mobility_critical_basic'',
      params = ''--nWifi=20 --tidCount=24 --criticalTids=24 --emergencyTids=0 --simtime=35 --mobility=true --mobilitySpeed=5.0'',
      description = ''Medium mobility - Critical Basic SLA (All Critical TIDs)''\<rparr>,
    \<lparr>name = ''medium_mobility_non_critical'',
      params = ''--nWifi=20 --tidCount=24 --criticalTids=0 --emergencyTids=0 --simtime=35 --mobility=true --mobilitySpeed=5.0'',
      description = ''Medium mobility - Non Critical SLA (All Non-Critical TIDs)''\<rparr>,
    \<lparr>name = ''medium_mobility_mixed_tid'',
      params = ''--nWifi=20 --tidCount=24 --criticalTids=8 --emergencyTids=8 --simtime=35 --mobility=true --mobilitySpeed=5.0'',
      description = ''Medium mobility - Mixed TID (Emergency + Critical + Non-Critical)''\<rparr>]"

definition scalability_tests :: "test_config list" where
  "scalability_tests =
   [\<lparr>name = ''10_nodes_mixed_tid'',
      params = ''--nWifi=10 --tidCount=12 --criticalTids=4 --emergencyTids=4 --simtime=25 --dataRate=50Mbps'',
      description = ''10 nodes - Mixed TID (Emergency + Critical + Non-Critical)''\<rparr>,
    \<lparr>name = ''20_nodes_critical_high'',
      params = ''--nWifi=20 --tidCount=24 --criticalTids=0 --emergencyTids=24 --simtime=30 --dataRate=75Mbps'',
      description = ''20 nodes - Critical High SLA (All Emergency TIDs)''\<rparr>,
    \<lparr>name = ''20_nodes_mixed_tid'',
      params = ''--nWifi=20 --tidCount=24 --criticalTids=8 --emergencyTids=8 --simtime=30 --dataRate=75Mbps'',
      description = ''20 nodes - Mixed TID (Emergency + Critical + Non-Critical)''\<rparr>,
    \<lparr>name = ''25_nodes_critical_basic'',
      params = ''--nWifi=25 --tidCount=30 --criticalTids=30 --emergencyTids=0 --simtime=30 --dataRate=90Mbps'',
      description = ''25 nodes - Critical Basic SLA (All Critical TIDs)''\<rparr>,
    \<lparr>name = ''25_nodes_mixed_tid'',
      params = ''--nWifi=25 --tidCount=30 --criticalTids=10 --emergencyTids=10 --simtime=30 --dataRate=90Mbps'',
      description = ''25 nodes - Mixed TID (Emergency + Critical + Non-Critical)''\<rparr>,
    \<lparr>name = ''30_nodes_critical_high'',
      params = ''--nWifi=30 --tidCount=36 --criticalTids=0 --emergencyTids=36 --simtime=30 --dataRate=100Mbps'',
      description = ''30 nodes - Critical High SLA (All Emergency TIDs)''\<rparr>,
    \<lparr>name = ''30_nodes_mixed_tid'',
      params = ''--nWifi=30 --tidCount=36 --criticalTids=12 --emergencyTids=12 --simtime=30 --dataRate=100Mbps'',
      description = ''30 nodes - Mixed TID (Emergency + Critical + Non-Critical)''\<rparr>,
    \<lparr>name = ''40_nodes_critical_basic'',
      params = ''--nWifi=40 --tidCount=48 --criticalTids=48 --emergencyTids=0 --simtime=35 --dataRate=120Mbps'',
      description = ''40 nodes - Critical Basic SLA (All Critical TIDs)''\<rparr>,
    \<lparr>name = ''40_nodes_mixed_tid'',
      params = ''--nWifi=40 --tidCount=48 --criticalTids=16 --emergencyTids=16 --simtime=35 --dataRate=120Mbps'',
      description = ''40 nodes - Mixed TID (Emergency + Critical + Non-Critical)''\<rparr>,
    \<lparr>name = ''50_nodes_critical_high'',
      params = ''--nWifi=50 --tidCount=60 --criticalTids=0 --emergencyTids=60 --simtime=35 --dataRate=150Mbps'',
      description = ''50 nodes - Critical High SLA (All Emergency TIDs)''\<rparr>,
    \<lparr>name = ''50_nodes_mixed_tid'',
      params = ''--nWifi=50 --tidCount=60 --criticalTids=20 --emergencyTids=20 --simtime=35 --dataRate=150Mbps'',
      description = ''50 nodes - Mixed TID (Emergency + Critical + Non-Critical)''\<rparr>,
    \<lparr>name = ''60_nodes_critical_basic'',
      params = ''--nWifi=60 --tidCount=72 --criticalTids=72 --emergencyTids=0 --simtime=40 --dataRate=180Mbps'',
      description = ''60 nodes - Critical Basic SLA (All Critical TIDs)''\<rparr>,
    \<lparr>name = ''60_nodes_mixed_tid'',
      params = ''--nWifi=60 --tidCount=72 --criticalTids=24 --emergencyTids=24 --simtime=40 --dataRate=180Mbps'',
      description = ''60 nodes - Mixed TID (Emergency + Critical + Non-Critical)''\<rparr>]"

definition critical_performance_tests :: "test_config list" where
  "critical_performance_tests =
   [\<lparr>name = ''low_critical_ratio_critical_high'',
      params = ''--nWifi=30 --tidCount=40 --criticalTids=0 --emergencyTids=8 --simtime=30 --dataRate=120Mbps'',
      description = ''Low critical ratio - Critical High SLA (20% Emergency TIDs)''\<rparr>,
    \<lparr>name = ''low_critical_ratio_critical_basic'',
      params = ''--nWifi=30 --tidCount=40 --criticalTids=8 --emergencyTids=0 --simtime=30 --dataRate=120Mbps'',
      description = ''Low critical ratio - Critical Basic SLA (20% Critical TIDs)''\<rparr>,
    \<lparr>name = ''low_critical_ratio_non_critical'',
      params = ''--nWifi=30 --tidCount=40 --criticalTids=0 --emergencyTids=0 --simtime=30 --dataRate=120Mbps'',
      description = ''Low critical ratio - Non Critical SLA (All Non-Critical TIDs)''\<rparr>,
    \<lparr>name = ''low_critical_ratio_mixed_tid'',
      params = ''--nWifi=30 --tidCount=40 --criticalTids=4 --emergencyTids=4 --simtime=30 --dataRate=120Mbps'',
      description = ''Low critical ratio - Mixed TID (Emergency + Critical + Non-Critical)''\<rparr>,
    \<lparr>name = ''medium_critical_ratio_critical_high'',
      params = ''--nWifi=30 --tidCount=40 --criticalTids=0 --emergencyTids=16 --simtime=30 --dataRate=120Mbps'',
      description = ''Medium critical ratio - Critical High SLA (40% Emergency TIDs)''\<rparr>,
    \<lparr>name = ''medium_critical_ratio_critical_basic'',
      params = ''--nWifi=30 --tidCount=40 --criticalTids=16 --emergencyTids=0 --simtime=30 --dataRate=120Mbps'',
      description = ''Medium critical ratio - Critical Basic SLA (40% Critical TIDs)''\<rparr>,
    \<lparr>name = ''medium_critical_ratio_non_critical'',
      params = ''--nWifi=30 --tidCount=40 --criticalTids=0 --emergencyTids=0 --simtime=30 --dataRate=120Mbps'',
      description = ''Medium critical ratio - Non Critical SLA (All Non-Critical TIDs)''\<rparr>,
    \<lparr>name = ''medium_critical_ratio_mixed_tid'',
      params = ''--nWifi=30 --tidCount=40 --criticalTids=8 --emergencyTids=8 --simtime=30 --dataRate=120Mbps'',
      description = ''Medium critical ratio - Mixed TID (Emergency + Critical + Non-Critical)''\<rparr>]"

definition network_configuration_tests :: "test_config list" where
  "network_configuration_tests =
   [\<lparr>name = ''basic_ul_ofdma_mixed_tid'',
      params = ''--nWifi=20 --tidCount=24 --criticalTids=8 --emergencyTids=8 --simtime=30 --enableUlOfdma=true'',
      description = ''Basic UL OFDMA - Mixed TID''\<rparr>,
    \<lparr>name = ''bsrp_enabled_mixed_tid'',
      params = ''--nWifi=25 --tidCount=30 --criticalTids=10 --emergencyTids=10 --simtime=30 --enableBsrp=true --enableUlOfdma=true'',
      description = ''BSRP enabled with UL OFDMA - Mixed TID (Buffer status reporting)''\<rparr>,
    \<lparr>name = ''medium_congestion_mixed_protocol'',
      params = ''--nWifi=25 --tidCount=30 --criticalTids=10 --emergencyTids=10 --simtime=30 --congestionLevel=medium --dataRate=100Mbps'',
      description = ''Medium congestion level - Mixed TID (Moderate network stress)''\<rparr>]"

definition protocol_variations_tests :: "test_config list" where
  "protocol_variations_tests =
   [\<lparr>name = ''tcp_basic_segments_mixed'',
      params = ''--nWifi=20 --tidCount=24 --criticalTids=8 --emergencyTids=8 --simtime=30 --tcpSegmentSize=1500 --dataRate=100Mbps'',
      description = ''TCP standard segments - Mixed TID (1.5KB segments)''\<rparr>,
    \<lparr>name = ''mixed_protocol_basic_mobility'',
      params = ''--nWifi=20 --tidCount=24 --criticalTids=8 --emergencyTids=8 --simtime=35 --mobility=true --mobilitySpeed=3.0'',
      description = ''Mixed protocol with basic mobility - Mixed TID (UDP/TCP alternating)''\<rparr>,
    \<lparr>name = ''mixed_protocol_basic_interference'',
      params = ''--nWifi=20 --tidCount=24 --criticalTids=8 --emergencyTids=8 --simtime=30 --interference=true --interferenceIntensity=0.4'',
      description = ''Mixed protocol with basic interference - Mixed TID''\<rparr>]"

definition define_test_scenarios :: "(string \<times> category) list" where
  "define_test_scenarios =
   [(''baseline'', \<lparr>category_description = ''Basic performance under normal conditions'',
      tests = baseline_tests\<rparr>),
    (''interference'', \<lparr>category_description = ''Performance under different interference patterns'',
      tests = interference_tests\<rparr>),
    (''failure_recovery'', \<lparr>category_description = ''Basic link failure and recovery performance'',
      tests = failure_recovery_tests\<rparr>),
    (''mobility'', \<lparr>category_description = ''Performance under mobility conditions'',
      tests = mobility_tests\<rparr>),
    (''scalability'', \<lparr>category_description = ''Scalability performance tests with node progression: 10, 20, 25, 30, 40, 50, 60'',
      tests = scalability_tests\<rparr>),
    (''critical_performance'', \<lparr>category_description = ''Critical traffic handling capabilities'',
      tests = critical_performance_tests\<rparr>),
    (''network_configuration'', \<lparr>category_description = ''Basic network configuration parameter testing'',
      tests = network_configuration_tests\<rparr>),
    (''protocol_variations'', \<lparr>category_description = ''Basic protocol configuration testing'',
      tests = protocol_variations_tests\<rparr>)]"
definition extreme_baseline_tests :: "test_config list" where
  "extreme_baseline_tests =
   [\<lparr>name = ''normal_load_critical_high'',
      params = ''--nWifi=20 --tidCount=24 --criticalTids=0 --emergencyTids=24 --simtime=30 --dataRate=100Mbps'',
      description = ''Normal load - Critical High SLA (All Emergency TIDs)''\<rparr>,
    \<lparr>name = ''normal_load_critical_basic'',
      params = ''--nWifi=20 --tidCount=24 --criticalTids=24 --emergencyTids=0 --simtime=30 --dataRate=100Mbps'',
      description = ''Normal load - Critical Basic SLA (All Critical TIDs)''\<rparr>,
    \<lparr>name = ''normal_load_non_critical'',
      params = ''--nWifi=20 --tidCount=24 --criticalTids=0 --emergencyTids=0 --simtime=30 --dataRate=100Mbps'',
      description = ''Normal load - Non Critical SLA (All Non-Critical TIDs)''\<rparr>,
    \<lparr>name = ''normal_load_mixed_tid'',
      params = ''--nWifi=20 --tidCount=24 --criticalTids=8 --emergencyTids=8 --simtime=30 --dataRate=100Mbps'',
      description = ''Normal load - Mixed TID (Emergency + Critical + Non-Critical)''\<rparr>,
    \<lparr>name = ''high_load_critical_high'',
      params = ''--nWifi=30 --tidCount=36 --criticalTids=0 --emergencyTids=36 --simtime=30 --dataRate=150Mbps'',
      description = ''High load - Critical High SLA (All Emergency TIDs)''\<rparr>,
    \<lparr>name = ''high_load_critical_basic'',
      params = ''--nWifi=30 --tidCount=36 --criticalTids=36 --emergencyTids=0 --simtime=30 --dataRate=150Mbps'',
      description = ''High load - Critical Basic SLA (All Critical TIDs)''\<rparr>,
    \<lparr>name = ''high_load_non_critical'',
      params = ''--nWifi=30 --tidCount=36 --criticalTids=0 --emergencyTids=0 --simtime=30 --dataRate=150Mbps'',
      description = ''High load - Non Critical SLA (All Non-Critical TIDs)''\<rparr>,
    \<lparr>name = ''high_load_mixed_tid'',
      params = ''--nWifi=30 --tidCount=36 --criticalTids=12 --emergencyTids=12 --simtime=30 --dataRate=150Mbps'',
      description = ''High load - Mixed TID (Emergency + Critical + Non-Critical)''\<rparr>,
    \<lparr>name = ''mixed_traffic_critical_high'',
      params = ''--nWifi=25 --tidCount=32 --criticalTids=0 --emergencyTids=32 --simtime=30 --dataRate=120Mbps'',
      description = ''Mixed traffic - Critical High SLA (All Emergency TIDs)''\<rparr>,
    \<lparr>name = ''mixed_traffic_critical_basic'',
      params = ''--nWifi=25 --tidCount=32 --criticalTids=32 --emergencyTids=0 --simtime=30 --dataRate=120Mbps'',
      description = ''Mixed traffic - Critical Basic SLA (All Critical TIDs)''\<rparr>,
    \<lparr>name = ''mixed_traffic_non_critical'',
      params = ''--nWifi=25 --tidCount=32 --criticalTids=0 --emergencyTids=0 --simtime=30 --dataRate=120Mbps'',
      description = ''Mixed traffic - Non Critical SLA (All Non-Critical TIDs)''\<rparr>,
    \<lparr>name = ''mixed_traffic_mixed_tid'',
      params = ''--nWifi=25 --tidCount=32 --criticalTids=11 --emergencyTids=11 --simtime=30 --dataRate=120Mbps'',
      description = ''Mixed traffic - Mixed TID (Emergency + Critical + Non-Critical)''\<rparr>]"

definition extreme_interference_tests :: "test_config list" where
  "extreme_interference_tests =
   [\<lparr>name = ''low_interference_critical_high'',
      params = ''--nWifi=20 --tidCount=24 --criticalTids=0 --emergencyTids=24 --simtime=30 --interference=true --interferenceIntensity=0.3'',
      description = ''Low interference - Critical High SLA (All Emergency TIDs)''\<rparr>,
    \<lparr>name = ''low_interference_critical_basic'',
      params = ''--nWifi=20 --tidCount=24 --criticalTids=24 --emergencyTids=0 --simtime=30 --interference=true --interferenceIntensity=0.3'',
      description = ''Low interference - Critical Basic SLA (All Critical TIDs)''\<rparr>,
    \<lparr>name = ''low_interference_non_critical'',
      params = ''--nWifi=20 --tidCount=24 --criticalTids=0 --emergencyTids=0 --simtime=30 --interference=true --interferenceIntensity=0.3'',
      description = ''Low interference - Non Critical SLA (All Non-Critical TIDs)''\<rparr>,
    \<lparr>name = ''low_interference_mixed_tid'',
      params = ''--nWifi=20 --tidCount=24 --criticalTids=8 --emergencyTids=8 --simtime=30 --interference=true --interferenceIntensity=0.3'',
      description = ''Low interference - Mixed TID (Emergency + Critical + Non-Critical)''\<rparr>,
    \<lparr>name = ''medium_interference_critical_high'',
      params = ''--nWifi=20 --tidCount=24 --criticalTids=0 --emergencyTids=24 --simtime=30 --interference=true --interferenceIntensity=0.6'',
      description = ''Medium interference - Critical High SLA (All Emergency TIDs)''\<rparr>,
    \<lparr>name = ''medium_interference_critical_basic'',
      params = ''--nWifi=20 --tidCount=24 --criticalTids=24 --emergencyTids=0 --simtime=30 --interference=true --interferenceIntensity=0.6'',
      description = ''Medium interference - Critical Basic SLA (All Critical TIDs)''\<rparr>,
    \<lparr>name = ''medium_interference_non_critical'',
      params = ''--nWifi=20 --tidCount=24 --criticalTids=0 --emergencyTids=0 --simtime=30 --interference=true --interferenceIntensity=0.6'',
      description = ''Medium interference - Non Critical SLA (All Non-Critical TIDs)''\<rparr>,
    \<lparr>name = ''medium_interference_mixed_tid'',
      params = ''--nWifi=20 --tidCount=24 --criticalTids=8 --emergencyTids=8 --simtime=30 --interference=true --interferenceIntensity=0.6'',
      description = ''Medium interference - Mixed TID (Emergency + Critical + Non-Critical)''\<rparr>,
    \<lparr>name = ''high_interference_critical_high'',
      params = ''--nWifi=20 --tidCount=24 --criticalTids=0 --emergencyTids=24 --simtime=30 --interference=true --interferenceIntensity=0.9'',
      description = ''High interference - Critical High SLA (All Emergency TIDs)''\<rparr>,
    \<lparr>name = ''high_interference_critical_basic'',
      params = ''--nWifi=20 --tidCount=24 --criticalTids=24 --emergencyTids=0 --simtime=30 --interference=true --interferenceIntensity=0.9'',
      description = ''High interference - Critical Basic SLA (All Critical TIDs)''\<rparr>,
    \<lparr>name = ''high_interference_non_critical'',
      params = ''--nWifi=20 --tidCount=24 --criticalTids=0 --emergencyTids=0 --simtime=30 --interference=true --interferenceIntensity=0.9'',
      description = ''High interference - Non Critical SLA (All Non-Critical TIDs)''\<rparr>,
    \<lparr>name = ''high_interference_mixed_tid'',
      params = ''--nWifi=20 --tidCount=24 --criticalTids=8 --emergencyTids=8 --simtime=30 --interference=true --interferenceIntensity=0.9'',
      description = ''High interference - Mixed TID (Emergency + Critical + Non-Critical)''\<rparr>,
    \<lparr>name = ''burst_interference_critical_high'',
      params = ''--nWifi=20 --tidCount=24 --criticalTids=0 --emergencyTids=24 --simtime=35 --interferencePattern=burst_2.4ghz --interferenceIntensity=0.8'',
      description = ''Burst interference - Critical High SLA (All Emergency TIDs)''\<rparr>,
    \<lparr>name = ''burst_interference_critical_basic'',
      params = ''--nWifi=20 --tidCount=24 --criticalTids=24 --emergencyTids=0 --simtime=35 --interferencePattern=burst_2.4ghz --interferenceIntensity=0.8'',
      description = ''Burst interference - Critical Basic SLA (All Critical TIDs)''\<rparr>,
    \<lparr>name = ''burst_interference_non_critical'',
      params = ''--nWifi=20 --tidCount=24 --criticalTids=0 --emergencyTids=0 --simtime=35 --interferencePattern=burst_2.4ghz --interferenceIntensity=0.8'',
      description = ''Burst interference - Non Critical SLA (All Non-Critical TIDs)''\<rparr>,
    \<lparr>name = ''burst_interference_mixed_tid'',
      params = ''--nWifi=20 --tidCount=24 --criticalTids=8 --emergencyTids=8 --simtime=35 --interferencePattern=burst_2.4ghz --interferenceIntensity=0.8'',
      description = ''Burst interference - Mixed TID (Emergency + Critical + Non-Critical)''\<rparr>,
    \<lparr>name = ''burst_5ghz_interference_critical_high'',
      params = ''--nWifi=20 --tidCount=24 --criticalTids=0 --emergencyTids=24 --simtime=35 --interferencePattern=burst_5ghz --interferenceIntensity=0.7 --burstDuration=2000 --burstInterval=5000'',
      description = ''Burst 5GHz interference - Critical High SLA (2s bursts every 5s)''\<rparr>,
    \<lparr>name = ''multiband_burst_interference_mixed'',
      params = ''--nWifi=25 --tidCount=30 --criticalTids=10 --emergencyTids=10 --simtime=40 --interferencePattern=burst_all --interferenceIntensity=0.9 --burstDuration=1500 --burstInterval=4000'',
      description = ''Multi-band burst interference - Mixed TID (All bands affected)''\<rparr>,
    \<lparr>name = ''low_freq_interference_critical_basic'',
      params = ''--nWifi=20 --tidCount=24 --criticalTids=24 --emergencyTids=0 --simtime=30 --interference=true --interferenceFrequency=low --interferenceIntensity=0.4'',
      description = ''Low frequency interference - Critical Basic SLA (Sporadic interference)''\<rparr>,
    \<lparr>name = ''high_freq_interference_emergency'',
      params = ''--nWifi=15 --tidCount=18 --criticalTids=0 --emergencyTids=18 --simtime=30 --interference=true --interferenceFrequency=high --interferenceIntensity=0.6 --maxInterference=0.9'',
      description = ''High frequency interference - Emergency Focus (Frequent high-intensity interference)''\<rparr>,
    \<lparr>name = ''variable_interference_mixed'',
      params = ''--nWifi=20 --tidCount=24 --criticalTids=8 --emergencyTids=8 --simtime=35 --interferencePattern=gradual --interferenceIntensity=0.3 --maxInterference=0.8'',
      description = ''Variable interference intensity - Mixed TID (Gradual intensity changes)''\<rparr>]"

definition extreme_failure_recovery_tests :: "test_config list" where
  "extreme_failure_recovery_tests =
   [\<lparr>name = ''random_failures_mixed_tid'',
      params = ''--nWifi=20 --tidCount=24 --criticalTids=8 --emergencyTids=8 --simtime=40 --linkFailureRate=0.1 --enableFailureRecovery=true'',
      description = ''Random failures (10% chance per second) - Mixed TID''\<rparr>,
    \<lparr>name = ''burst_failures_emulated_mixed_tid'',
      params = ''--nWifi=20 --tidCount=24 --criticalTids=8 --emergencyTids=8 --simtime=40 --linkFailureRate=0.3 --enableFailureRecovery=true'',
      description = ''Burst failures emulated with high random failure rate (30%) - Mixed TID''\<rparr>,
    \<lparr>name = ''periodic_failures_emulated_mixed_tid'',
      params = ''--nWifi=20 --tidCount=24 --criticalTids=8 --emergencyTids=8 --simtime=45 --interferencePattern=burst_all --burstDuration=2000 --burstInterval=10000 --interferenceIntensity=0.95'',
      description = ''Periodic failures emulated via interference bursts (2s burst every 10s) - Mixed TID''\<rparr>,
    \<lparr>name = ''long_duration_failures_emergency'',
      params = ''--nWifi=15 --tidCount=18 --criticalTids=0 --emergencyTids=18 --simtime=60 --linkFailureRate=0.1 --failureDuration=5000 --enableFailureRecovery=true'',
      description = ''Long duration failures (5s) - Emergency Focus''\<rparr>]"

definition extreme_mobility_tests :: "test_config list" where
  "extreme_mobility_tests =
   [\<lparr>name = ''static_nodes_critical_high'',
      params = ''--nWifi=20 --tidCount=24 --criticalTids=0 --emergencyTids=24 --simtime=30 --mobility=false'',
      description = ''Static topology - Critical High SLA (All Emergency TIDs)''\<rparr>,
    \<lparr>name = ''static_nodes_critical_basic'',
      params = ''--nWifi=20 --tidCount=24 --criticalTids=24 --emergencyTids=0 --simtime=30 --mobility=false'',
      description = ''Static topology - Critical Basic SLA (All Critical TIDs)''\<rparr>,
    \<lparr>name = ''static_nodes_non_critical'',
      params = ''--nWifi=20 --tidCount=24 --criticalTids=0 --emergencyTids=0 --simtime=30 --mobility=false'',
      description = ''Static topology - Non Critical SLA (All Non-Critical TIDs)''\<rparr>,
    \<lparr>name = ''static_nodes_mixed_tid'',
      params = ''--nWifi=20 --tidCount=24 --criticalTids=8 --emergencyTids=8 --simtime=30 --mobility=false'',
      description = ''Static topology - Mixed TID (Emergency + Critical + Non-Critical)''\<rparr>,
    \<lparr>name = ''low_mobility_critical_high'',
      params = ''--nWifi=20 --tidCount=24 --criticalTids=0 --emergencyTids=24 --simtime=35 --mobility=true --mobilitySpeed=2.0'',
      description = ''Low mobility - Critical High SLA (All Emergency TIDs)''\<rparr>,
    \<lparr>name = ''low_mobility_critical_basic'',
      params = ''--nWifi=20 --tidCount=24 --criticalTids=24 --emergencyTids=0 --simtime=35 --mobility=true --mobilitySpeed=2.0'',
      description = ''Low mobility - Critical Basic SLA (All Critical TIDs)''\<rparr>,
    \<lparr>name = ''low_mobility_non_critical'',
      params = ''--nWifi=20 --tidCount=24 --criticalTids=0 --emergencyTids=0 --simtime=35 --mobility=true --mobilitySpeed=2.0'',
      description = ''Low mobility - Non Critical SLA (All Non-Critical TIDs)''\<rparr>,
    \<lparr>name = ''low_mobility_mixed_tid'',
      params = ''--nWifi=20 --tidCount=24 --criticalTids=8 --emergencyTids=8 --simtime=35 --mobility=true --mobilitySpeed=2.0'',
      description = ''Low mobility - Mixed TID (Emergency + Critical + Non-Critical)''\<rparr>,
    \<lparr>name = ''medium_mobility_critical_high'',
      params = ''--nWifi=20 --tidCount=24 --criticalTids=0 --emergencyTids=24 --simtime=35 --mobility=true --mobilitySpeed=5.0'',
      description = ''Medium mobility - Critical High SLA (All Emergency TIDs)''\<rparr>,
    \<lparr>name = ''medium_mobility_critical_basic'',
      params = ''--nWifi=20 --tidCount=24 --criticalTids=24 --emergencyTids=0 --simtime=35 --mobility=true --mobilitySpeed=5.0'',
      description = ''Medium mobility - Critical Basic SLA (All Critical TIDs)''\<rparr>,
    \<lparr>name = ''medium_mobility_non_critical'',
      params = ''--nWifi=20 --tidCount=24 --criticalTids=0 --emergencyTids=0 --simtime=35 --mobility=true --mobilitySpeed=5.0'',
      description = ''Medium mobility - Non Critical SLA (All Non-Critical TIDs)''\<rparr>,
    \<lparr>name = ''medium_mobility_mixed_tid'',
      params = ''--nWifi=20 --tidCount=24 --criticalTids=8 --emergencyTids=8 --simtime=35 --mobility=true --mobilitySpeed=5.0'',
      description = ''Medium mobility - Mixed TID (Emergency + Critical + Non-Critical)''\<rparr>,
    \<lparr>name = ''high_mobility_critical_high'',
      params = ''--nWifi=20 --tidCount=24 --criticalTids=0 --emergencyTids=24 --simtime=35 --mobility=true --mobilitySpeed=10.0'',
      description = ''High mobility - Critical High SLA (All Emergency TIDs)''\<rparr>,
    \<lparr>name = ''high_mobility_critical_basic'',
      params = ''--nWifi=20 --tidCount=24 --criticalTids=24 --emergencyTids=0 --simtime=35 --mobility=true --mobilitySpeed=10.0'',
      description = ''High mobility - Critical Basic SLA (All Critical TIDs)''\<rparr>,
    \<lparr>name = ''high_mobility_non_critical'',
      params = ''--nWifi=20 --tidCount=24 --criticalTids=0 --emergencyTids=0 --simtime=35 --mobility=true --mobilitySpeed=10.0'',
      description = ''High mobility - Non Critical SLA (All Non-Critical TIDs)''\<rparr>,
    \<lparr>name = ''high_mobility_mixed_tid'',
      params = ''--nWifi=20 --tidCount=24 --criticalTids=8 --emergencyTids=8 --simtime=35 --mobility=true --mobilitySpeed=10.0'',
      description = ''High mobility - Mixed TID (Emergency + Critical + Non-Critical)''\<rparr>,
    \<lparr>name = ''gradual_mobility_critical_high'',
      params = ''--nWifi=20 --tidCount=24 --criticalTids=0 --emergencyTids=24 --simtime=40 --mobility=true --mobilityPattern=gradual --mobilitySpeed=3.0'',
      description = ''Gradual mobility pattern - Critical High SLA (Predictable movement)''\<rparr>,
    \<lparr>name = ''random_mobility_mixed_tid'',
      params = ''--nWifi=25 --tidCount=30 --criticalTids=10 --emergencyTids=10 --simtime=40 --mobility=true --mobilityPattern=random --mobilitySpeed=7.0'',
      description = ''Random mobility pattern - Mixed TID (Unpredictable movement)''\<rparr>,
    \<lparr>name = ''very_high_speed_emergency'',
      params = ''--nWifi=15 --tidCount=18 --criticalTids=0 --emergencyTids=18 --simtime=30 --mobility=true --mobilitySpeed=15.0'',
      description = ''Very high speed mobility - Emergency Only (15 m/s speed)''\<rparr>]"

definition extreme_scalability_tests :: "test_config list" where
  "extreme_scalability_tests =
   [\<lparr>name = ''small_network_critical_high'',
      params = ''--nWifi=10 --tidCount=12 --criticalTids=0 --emergencyTids=12 --simtime=25 --dataRate=50Mbps'',
      description = ''Small network - Critical High SLA (All Emergency TIDs)''\<rparr>,
    \<lparr>name = ''small_network_critical_basic'',
      params = ''--nWifi=10 --tidCount=12 --criticalTids=12 --emergencyTids=0 --simtime=25 --dataRate=50Mbps'',
      description = ''Small network - Critical Basic SLA (All Critical TIDs)''\<rparr>,
    \<lparr>name = ''small_network_non_critical'',
      params = ''--nWifi=10 --tidCount=12 --criticalTids=0 --emergencyTids=0 --simtime=25 --dataRate=50Mbps'',
      description = ''Small network - Non Critical SLA (All Non-Critical TIDs)''\<rparr>,
    \<lparr>name = ''small_network_mixed_tid'',
      params = ''--nWifi=10 --tidCount=12 --criticalTids=4 --emergencyTids=4 --simtime=25 --dataRate=50Mbps'',
      description = ''Small network - Mixed TID (Emergency + Critical + Non-Critical)''\<rparr>,
    \<lparr>name = ''medium_network_critical_high'',
      params = ''--nWifi=30 --tidCount=36 --criticalTids=0 --emergencyTids=36 --simtime=30 --dataRate=100Mbps'',
      description = ''Medium network - Critical High SLA (All Emergency TIDs)''\<rparr>,
    \<lparr>name = ''medium_network_critical_basic'',
      params = ''--nWifi=30 --tidCount=36 --criticalTids=36 --emergencyTids=0 --simtime=30 --dataRate=100Mbps'',
      description = ''Medium network - Critical Basic SLA (All Critical TIDs)''\<rparr>,
    \<lparr>name = ''medium_network_non_critical'',
      params = ''--nWifi=30 --tidCount=36 --criticalTids=0 --emergencyTids=0 --simtime=30 --dataRate=100Mbps'',
      description = ''Medium network - Non Critical SLA (All Non-Critical TIDs)''\<rparr>,
    \<lparr>name = ''medium_network_mixed_tid'',
      params = ''--nWifi=30 --tidCount=36 --criticalTids=12 --emergencyTids=12 --simtime=30 --dataRate=100Mbps'',
      description = ''Medium network - Mixed TID (Emergency + Critical + Non-Critical)''\<rparr>,
    \<lparr>name = ''large_network_critical_high'',
      params = ''--nWifi=50 --tidCount=60 --criticalTids=0 --emergencyTids=60 --simtime=35 --dataRate=150Mbps'',
      description = ''Large network - Critical High SLA (All Emergency TIDs)''\<rparr>,
    \<lparr>name = ''large_network_critical_basic'',
      params = ''--nWifi=50 --tidCount=60 --criticalTids=60 --emergencyTids=0 --simtime=35 --dataRate=150Mbps'',
      description = ''Large network - Critical Basic SLA (All Critical TIDs)''\<rparr>,
    \<lparr>name = ''large_network_non_critical'',
      params = ''--nWifi=50 --tidCount=60 --criticalTids=0 --emergencyTids=0 --simtime=35 --dataRate=150Mbps'',
      description = ''Large network - Non Critical SLA (All Non-Critical TIDs)''\<rparr>,
    \<lparr>name = ''large_network_mixed_tid'',
      params = ''--nWifi=50 --tidCount=60 --criticalTids=20 --emergencyTids=20 --simtime=35 --dataRate=150Mbps'',
      description = ''Large network - Mixed TID (Emergency + Critical + Non-Critical)''\<rparr>,
    \<lparr>name = ''very_large_network_critical_high'',
      params = ''--nWifi=80 --tidCount=96 --criticalTids=0 --emergencyTids=96 --simtime=40 --dataRate=200Mbps'',
      description = ''Very large network - Critical High SLA (All Emergency TIDs)''\<rparr>,
    \<lparr>name = ''very_large_network_critical_basic'',
      params = ''--nWifi=80 --tidCount=96 --criticalTids=96 --emergencyTids=0 --simtime=40 --dataRate=200Mbps'',
      description = ''Very large network - Critical Basic SLA (All Critical TIDs)''\<rparr>,
    \<lparr>name = ''very_large_network_non_critical'',
      params = ''--nWifi=80 --tidCount=96 --criticalTids=0 --emergencyTids=0 --simtime=40 --dataRate=200Mbps'',
      description = ''Very large network - Non Critical SLA (All Non-Critical TIDs)''\<rparr>,
    \<lparr>name = ''very_large_network_mixed_tid'',
      params = ''--nWifi=80 --tidCount=96 --criticalTids=32 --emergencyTids=32 --simtime=40 --dataRate=200Mbps'',
      description = ''Very large network - Mixed TID (Emergency + Critical + Non-Critical)''\<rparr>]"

definition extreme_critical_performance_tests :: "test_config list" where
  "extreme_critical_performance_tests =
   [\<lparr>name = ''low_critical_ratio_critical_high'',
      params = ''--nWifi=30 --tidCount=40 --criticalTids=0 --emergencyTids=8 --simtime=30 --dataRate=120Mbps'',
      description = ''Low critical ratio - Critical High SLA (20% Emergency TIDs)''\<rparr>,
    \<lparr>name = ''low_critical_ratio_critical_basic'',
      params = ''--nWifi=30 --tidCount=40 --criticalTids=8 --emergencyTids=0 --simtime=30 --dataRate=120Mbps'',
      description = ''Low critical ratio - Critical Basic SLA (20% Critical TIDs)''\<rparr>,
    \<lparr>name = ''low_critical_ratio_non_critical'',
      params = ''--nWifi=30 --tidCount=40 --criticalTids=0 --emergencyTids=0 --simtime=30 --dataRate=120Mbps'',
      description = ''Low critical ratio - Non Critical SLA (All Non-Critical TIDs)''\<rparr>,
    \<lparr>name = ''low_critical_ratio_mixed_tid'',
      params = ''--nWifi=30 --tidCount=40 --criticalTids=4 --emergencyTids=4 --simtime=30 --dataRate=120Mbps'',
      description = ''Low critical ratio - Mixed TID (Emergency + Critical + Non-Critical)''\<rparr>,
    \<lparr>name = ''medium_critical_ratio_critical_high'',
      params = ''--nWifi=30 --tidCount=40 --criticalTids=0 --emergencyTids=16 --simtime=30 --dataRate=120Mbps'',
      description = ''Medium critical ratio - Critical High SLA (40% Emergency TIDs)''\<rparr>,
    \<lparr>name = ''medium_critical_ratio_critical_basic'',
      params = ''--nWifi=30 --tidCount=40 --criticalTids=16 --emergencyTids=0 --simtime=30 --dataRate=120Mbps'',
      description = ''Medium critical ratio - Critical Basic SLA (40% Critical TIDs)''\<rparr>,
    \<lparr>name = ''medium_critical_ratio_non_critical'',
      params = ''--nWifi=30 --tidCount=40 --criticalTids=0 --emergencyTids=0 --simtime=30 --dataRate=120Mbps'',
      description = ''Medium critical ratio - Non Critical SLA (All Non-Critical TIDs)''\<rparr>,
    \<lparr>name = ''medium_critical_ratio_mixed_tid'',
      params = ''--nWifi=30 --tidCount=40 --criticalTids=8 --emergencyTids=8 --simtime=30 --dataRate=120Mbps'',
      description = ''Medium critical ratio - Mixed TID (Emergency + Critical + Non-Critical)''\<rparr>,
    \<lparr>name = ''high_critical_ratio_critical_high'',
      params = ''--nWifi=30 --tidCount=40 --criticalTids=0 --emergencyTids=28 --simtime=30 --dataRate=120Mbps'',
      description = ''High critical ratio - Critical High SLA (70% Emergency TIDs)''\<rparr>,
    \<lparr>name = ''high_critical_ratio_critical_basic'',
      params = ''--nWifi=30 --tidCount=40 --criticalTids=28 --emergencyTids=0 --simtime=30 --dataRate=120Mbps'',
      description = ''High critical ratio - Critical Basic SLA (70% Critical TIDs)''\<rparr>,
    \<lparr>name = ''high_critical_ratio_non_critical'',
      params = ''--nWifi=30 --tidCount=40 --criticalTids=0 --emergencyTids=0 --simtime=30 --dataRate=120Mbps'',
      description = ''High critical ratio - Non Critical SLA (All Non-Critical TIDs)''\<rparr>,
    \<lparr>name = ''high_critical_ratio_mixed_tid'',
      params = ''--nWifi=30 --tidCount=40 --criticalTids=14 --emergencyTids=14 --simtime=30 --dataRate=120Mbps'',
      description = ''High critical ratio - Mixed TID (Emergency + Critical + Non-Critical)''\<rparr>,
    \<lparr>name = ''emergency_with_critical_critical_high'',
      params = ''--nWifi=25 --tidCount=32 --criticalTids=0 --emergencyTids=24 --simtime=35 --dataRate=150Mbps'',
      description = ''Emergency with critical - Critical High SLA (75% Emergency TIDs)''\<rparr>,
    \<lparr>name = ''emergency_with_critical_critical_basic'',
      params = ''--nWifi=25 --tidCount=32 --criticalTids=24 --emergencyTids=0 --simtime=35 --dataRate=150Mbps'',
      description = ''Emergency with critical - Critical Basic SLA (75% Critical TIDs)''\<rparr>,
    \<lparr>name = ''emergency_with_critical_non_critical'',
      params = ''--nWifi=25 --tidCount=32 --criticalTids=0 --emergencyTids=0 --simtime=35 --dataRate=150Mbps'',
      description = ''Emergency with critical - Non Critical SLA (All Non-Critical TIDs)''\<rparr>,
    \<lparr>name = ''emergency_with_critical_mixed_tid'',
      params = ''--nWifi=25 --tidCount=32 --criticalTids=11 --emergencyTids=11 --simtime=35 --dataRate=150Mbps'',
      description = ''Emergency with Critical - Mixed TID (Emergency + Critical + Non-Critical)''\<rparr>]"

definition extreme_network_configuration_tests :: "test_config list" where
  "extreme_network_configuration_tests =
   [\<lparr>name = ''high_mcs_ul_ofdma_critical_high'',
      params = ''--nWifi=20 --tidCount=24 --criticalTids=0 --emergencyTids=24 --simtime=30 --mcs=11 --enableUlOfdma=true --channelWidth=160'',
      description = ''High MCS with UL OFDMA - Critical High SLA (MCS 11, 160MHz channel)''\<rparr>,
    \<lparr>name = ''bsrp_enabled_mixed_tid'',
      params = ''--nWifi=25 --tidCount=30 --criticalTids=10 --emergencyTids=10 --simtime=30 --enableBsrp=true --enableUlOfdma=true'',
      description = ''BSRP enabled with UL OFDMA - Mixed TID (Buffer status reporting)''\<rparr>,
    \<lparr>name = ''wide_channel_high_congestion_emergency'',
      params = ''--nWifi=30 --tidCount=36 --criticalTids=0 --emergencyTids=36 --simtime=35 --channelWidth=160 --congestionLevel=high --dataRate=200Mbps'',
      description = ''Wide channel with high congestion - Emergency Focus (160MHz under stress)''\<rparr>,
    \<lparr>name = ''low_mcs_high_load_critical_basic'',
      params = ''--nWifi=40 --tidCount=48 --criticalTids=48 --emergencyTids=0 --simtime=30 --mcs=2 --dataRate=50Mbps'',
      description = ''Low MCS with high load - Critical Basic SLA (MCS 2 under load)''\<rparr>,
    \<lparr>name = ''medium_congestion_mixed_protocol'',
      params = ''--nWifi=25 --tidCount=30 --criticalTids=10 --emergencyTids=10 --simtime=30 --congestionLevel=medium --dataRate=100Mbps'',
      description = ''Medium congestion level - Mixed TID (Moderate network stress)''\<rparr>]"

definition extreme_protocol_variations_tests :: "test_config list" where
  "extreme_protocol_variations_tests =
   [\<lparr>name = ''tcp_large_segments_critical_high'',
      params = ''--nWifi=20 --tidCount=24 --criticalTids=0 --emergencyTids=24 --simtime=30 --tcpSegmentSize=2000 --dataRate=100Mbps'',
      description = ''TCP large segments - Critical High SLA (2KB segments)''\<rparr>,
    \<lparr>name = ''tcp_small_segments_high_load_mixed'',
      params = ''--nWifi=30 --tidCount=36 --criticalTids=12 --emergencyTids=12 --simtime=30 --tcpSegmentSize=500 --dataRate=150Mbps'',
      description = ''TCP small segments with high load - Mixed TID (500B segments)''\<rparr>,
    \<lparr>name = ''mixed_protocol_mobility_emergency'',
      params = ''--nWifi=20 --tidCount=24 --criticalTids=0 --emergencyTids=24 --simtime=35 --mobility=true --mobilitySpeed=5.0'',
      description = ''Mixed protocol with mobility - Emergency Focus (UDP/TCP alternating)''\<rparr>,
    \<lparr>name = ''mixed_protocol_interference_critical_basic'',
      params = ''--nWifi=25 --tidCount=30 --criticalTids=30 --emergencyTids=0 --simtime=30 --interference=true --interferenceIntensity=0.5'',
      description = ''Mixed protocol with interference - Critical Basic SLA (Protocol diversity under interference)''\<rparr>]"

definition extreme_mobility_interference_extreme_tests :: "test_config list" where
  "extreme_mobility_interference_extreme_tests =
   [\<lparr>name = ''low_mobility_medium_interference_emergency'',
      params = ''--nWifi=20 --tidCount=24 --criticalTids=0 --emergencyTids=24 --simtime=40 --mobility=true --mobilitySpeed=2.0 --interference=true --interferenceIntensity=0.6'',
      description = ''Low mobility + Medium interference - Emergency SLA (2m/s + 60% interference)''\<rparr>,
    \<lparr>name = ''low_mobility_high_interference_mixed'',
      params = ''--nWifi=25 --tidCount=30 --criticalTids=10 --emergencyTids=10 --simtime=40 --mobility=true --mobilitySpeed=2.0 --interference=true --interferenceIntensity=0.9'',
      description = ''Low mobility + High interference - Mixed TID (2m/s + 90% interference)''\<rparr>,
    \<lparr>name = ''low_mobility_burst_interference_critical'',
      params = ''--nWifi=20 --tidCount=24 --criticalTids=24 --emergencyTids=0 --simtime=45 --mobility=true --mobilitySpeed=2.0 --interferencePattern=burst_2.4ghz --interferenceIntensity=0.8'',
      description = ''Low mobility + Burst interference - Critical Basic (2m/s + 2.4GHz bursts)''\<rparr>,
    \<lparr>name = ''medium_mobility_high_interference_emergency'',
      params = ''--nWifi=25 --tidCount=30 --criticalTids=0 --emergencyTids=30 --simtime=40 --mobility=true --mobilitySpeed=5.0 --interference=true --interferenceIntensity=0.9'',
      description = ''Medium mobility + High interference - Emergency SLA (5m/s + 90% interference)''\<rparr>,
    \<lparr>name = ''medium_mobility_burst_all_bands_mixed'',
      params = ''--nWifi=30 --tidCount=36 --criticalTids=12 --emergencyTids=12 --simtime=45 --mobility=true --mobilitySpeed=5.0 --interferencePattern=burst_all --interferenceIntensity=0.8 --burstDuration=1500 --burstInterval=4000'',
      description = ''Medium mobility + Multi-band burst interference - Mixed TID (5m/s + all-band bursts)''\<rparr>,
    \<lparr>name = ''medium_mobility_variable_interference_critical'',
      params = ''--nWifi=25 --tidCount=30 --criticalTids=30 --emergencyTids=0 --simtime=45 --mobility=true --mobilitySpeed=5.0 --interferencePattern=gradual --interferenceIntensity=0.4 --maxInterference=0.9'',
      description = ''Medium mobility + Variable interference - Critical Basic (5m/s + gradual interference changes)''\<rparr>,
    \<lparr>name = ''high_mobility_high_interference_emergency'',
      params = ''--nWifi=25 --tidCount=30 --criticalTids=0 --emergencyTids=30 --simtime=40 --mobility=true --mobilitySpeed=10.0 --interference=true --interferenceIntensity=0.9'',
      description = ''High mobility + High interference - Emergency SLA (10m/s + 90% interference)''\<rparr>,
    \<lparr>name = ''high_mobility_burst_5ghz_mixed'',
      params = ''--nWifi=20 --tidCount=24 --criticalTids=8 --emergencyTids=8 --simtime=45 --mobility=true --mobilitySpeed=10.0 --interferencePattern=burst_5ghz --interferenceIntensity=0.8 --burstDuration=2000 --burstInterval=5000'',
      description = ''High mobility + 5GHz burst interference - Mixed TID (10m/s + 5GHz bursts)''\<rparr>,
    \<lparr>name = ''high_mobility_high_freq_interference_critical'',
      params = ''--nWifi=20 --tidCount=24 --criticalTids=24 --emergencyTids=0 --simtime=40 --mobility=true --mobilitySpeed=10.0 --interference=true --interferenceFrequency=high --interferenceIntensity=0.7 --maxInterference=0.9'',
      description = ''High mobility + High freq interference - Critical Basic (10m/s + frequent interference)''\<rparr>,
    \<lparr>name = ''random_mobility_multiband_burst_emergency'',
      params = ''--nWifi=30 --tidCount=36 --criticalTids=0 --emergencyTids=36 --simtime=50 --mobility=true --mobilityPattern=random --mobilitySpeed=7.0 --interferencePattern=burst_all --interferenceIntensity=0.9 --burstDuration=1000 --burstInterval=3000'',
      description = ''Random mobility + Multi-band bursts - Emergency SLA (7m/s random + all-band interference)''\<rparr>,
    \<lparr>name = ''random_mobility_variable_interference_mixed'',
      params = ''--nWifi=25 --tidCount=30 --criticalTids=10 --emergencyTids=10 --simtime=50 --mobility=true --mobilityPattern=random --mobilitySpeed=8.0 --interferencePattern=gradual --interferenceIntensity=0.3 --maxInterference=0.95'',
      description = ''Random mobility + Variable interference - Mixed TID (8m/s random + gradual interference)''\<rparr>,
    \<lparr>name = ''very_high_speed_extreme_interference_emergency'',
      params = ''--nWifi=20 --tidCount=24 --criticalTids=0 --emergencyTids=24 --simtime=40 --mobility=true --mobilitySpeed=15.0 --interference=true --interferenceIntensity=0.95'',
      description = ''Very high speed + Extreme interference - Emergency Only (15m/s + 95% interference)''\<rparr>,
    \<lparr>name = ''very_high_speed_periodic_failures_mixed'',
      params = ''--nWifi=25 --tidCount=30 --criticalTids=10 --emergencyTids=10 --simtime=50 --mobility=true --mobilitySpeed=15.0 --interferencePattern=burst_all --burstDuration=3000 --burstInterval=8000 --interferenceIntensity=0.98'',
      description = ''Very high speed + Periodic failures - Mixed TID (15m/s + 98% interference bursts)''\<rparr>,
    \<lparr>name = ''large_network_mobility_interference_stress'',
      params = ''--nWifi=50 --tidCount=60 --criticalTids=20 --emergencyTids=20 --simtime=45 --mobility=true --mobilitySpeed=8.0 --interference=true --interferenceIntensity=0.8'',
      description = ''Large network mobility + interference stress test (50 nodes, 8m/s + 80% interference)''\<rparr>,
    \<lparr>name = ''very_large_network_extreme_mobility_interference'',
      params = ''--nWifi=80 --tidCount=96 --criticalTids=32 --emergencyTids=32 --simtime=50 --mobility=true --mobilityPattern=random --mobilitySpeed=12.0 --interferencePattern=burst_all --interferenceIntensity=0.9 --burstDuration=2000 --burstInterval=5000'',
      description = ''Very large network extreme test (80 nodes, 12m/s random + multi-band bursts)''\<rparr>,
    \<lparr>name = ''tcp_mobility_interference_stress'',
      params = ''--nWifi=25 --tidCount=30 --criticalTids=15 --emergencyTids=15 --simtime=45 --mobility=true --mobilitySpeed=8.0 --interference=true --interferenceIntensity=0.8 --tcpSegmentSize=1500'',
      description = ''TCP under mobility + interference stress (8m/s + 80% interference)''\<rparr>,
    \<lparr>name = ''mixed_protocol_extreme_mobility_interference'',
      params = ''--nWifi=30 --tidCount=36 --criticalTids=12 --emergencyTids=12 --simtime=50 --mobility=true --mobilityPattern=random --mobilitySpeed=10.0 --interferencePattern=burst_all --interferenceIntensity=0.85'',
      description = ''Mixed protocols under extreme conditions (10m/s random + burst interference)''\<rparr>]"

definition extreme_define_test_scenarios :: "(string \<times> category) list" where
  "extreme_define_test_scenarios =
   [(''baseline'', \<lparr>category_description = ''Basic performance under normal conditions'',
      tests = extreme_baseline_tests\<rparr>),
    (''interference'', \<lparr>category_description = ''Performance under different interference patterns'',
      tests = extreme_interference_tests\<rparr>),
    (''failure_recovery'', \<lparr>category_description = ''Link failure and recovery performance'',
      tests = extreme_failure_recovery_tests\<rparr>),
    (''mobility'', \<lparr>category_description = ''Performance under mobility conditions'',
      tests = extreme_mobility_tests\<rparr>),
    (''scalability'', \<lparr>category_description = ''Scalability performance tests'',
      tests = extreme_scalability_tests\<rparr>),
    (''critical_performance'', \<lparr>category_description = ''Critical traffic handling capabilities'',
      tests = extreme_critical_performance_tests\<rparr>),
    (''network_configuration'', \<lparr>category_description = ''Advanced network configuration parameter testing'',
      tests = extreme_network_configuration_tests\<rparr>),
    (''protocol_variations'', \<lparr>category_description = ''Mixed protocol and advanced protocol configuration testing'',
      tests = extreme_protocol_variations_tests\<rparr>),
    (''mobility_interference_extreme'', \<lparr>category_description = ''Extreme scenarios combining mobility and interference stress testing'',
      tests = extreme_mobility_interference_extreme_tests\<rparr>)]"
subsection \<open>The runner object\<close>

text \<open>
  The start time of a run, as \<^verbatim>\<open>datetime.now()\<close> gives it, and its rendering by
  \<^verbatim>\<open>strftime("%Y%m%d_%H%M%S")\<close>: the year in decimal, every other field padded to two
  digits.
\<close>

record datetime =
  year :: nat
  month :: nat
  day :: nat
  hour :: nat
  minute :: nat
  second :: nat

definition pad2 :: "nat \<Rightarrow> string" where
  "pad2 n = (if n < 10 then CHR ''0'' # str_nat n else str_nat n)"

definition strftime :: "datetime \<Rightarrow> string" where
  "strftime d =
     str_nat (year d) @ pad2 (month d) @ pad2 (day d) @ ''_'' @
     pad2 (hour d) @ pad2 (minute d) @ pad2 (second d)"

record runner =
  ns3_dir :: py_path
  output_dir :: py_path
  log_dir :: py_path
  output_csv_path :: py_path
  timestamp :: string
  scenarios :: "(string \<times> category) list"
  strategies :: "string list"
  protocols :: "string list"

text \<open>
  \<^verbatim>\<open>__init__\<close>, from the parsed \<^verbatim>\<open>Path(ns3_dir)\<close>, the clock reading and the catalog
  that \<^verbatim>\<open>define_test_scenarios\<close> of the class returns.
\<close>

definition init_runner :: "py_path \<Rightarrow> datetime \<Rightarrow> (string \<times> category) list \<Rightarrow> runner" where
  "init_runner dir now catalog =
     \<lparr>ns3_dir = dir,
      output_dir = path_div (path_div dir ''scratch'') ''output_files_csv'',
      log_dir = path_div (path_div dir ''scratch'') ''logs'',
      output_csv_path =
        path_div (path_div (path_div dir ''scratch'') ''output_files_csv'')
          ''mlo_unified_results.csv'',
      timestamp = strftime now,
      scenarios = catalog,
      strategies = [''RoundRobin'', ''Greedy'', ''Reliability'', ''SLA-MLO''],
      protocols = [''UDP'', ''TCP'', ''Mixed'']\<rparr>"

definition MLOSimulationRunner :: "py_path \<Rightarrow> datetime \<Rightarrow> runner" where
  "MLOSimulationRunner dir now = init_runner dir now define_test_scenarios"

definition MLOExtremeSimulationRunner :: "py_path \<Rightarrow> datetime \<Rightarrow> runner" where
  "MLOExtremeSimulationRunner dir now = init_runner dir now extreme_define_test_scenarios"

text \<open>\<^verbatim>\<open>Path(".")\<close>, the default \<^verbatim>\<open>ns3_dir\<close>.\<close>

definition cwd :: py_path where
  "cwd = \<lparr>rooted = False, parts = []\<rparr>"

subsection \<open>Building one invocation\<close>

type_synonym test_info = "string \<times> string \<times> string"

text \<open>The three components of an invocation: \<^verbatim>\<open>command, test_name, description = test_info\<close>.\<close>

definition command_of :: "test_info \<Rightarrow> string" where
  "command_of test_info = (case test_info of (command, test_name, descr) \<Rightarrow> command)"

definition test_name_of :: "test_info \<Rightarrow> string" where
  "test_name_of test_info = (case test_info of (command, test_name, descr) \<Rightarrow> test_name)"

definition description_of :: "test_info \<Rightarrow> string" where
  "description_of test_info = (case test_info of (command, test_name, descr) \<Rightarrow> descr)"

definition generate_test_command ::
  "runner \<Rightarrow> string \<Rightarrow> test_config \<Rightarrow> string \<Rightarrow> string \<Rightarrow> int \<Rightarrow> test_info" where
  "generate_test_command r scenario_category test_cfg strategy protocol seed =
     (let csv_file_path = output_csv_path r;
          command =
            ''./ns3 run '' @ [CHR 0x27] @ ''mlo_simulator '' @
            ''--strategy='' @ strategy @ '' '' @
            ''--protocol='' @ protocol @ '' '' @
            ''--seed='' @ str_int seed @ '' '' @
            ''--csvFile='' @ path_str csv_file_path @ '' '' @
            ''--scenario='' @ scenario_category @ ''_'' @ name test_cfg @ '' '' @
            ''--runNumber='' @ str_int seed @ '' '' @
            ''--verbose=1 '';
          command = command @ params test_cfg;
          command = command @ [CHR 0x27];
          test_name =
            scenario_category @ ''_'' @ name test_cfg @ ''_'' @ strategy @ ''_'' @
            protocol @ ''_'' @ str_int seed
      in (command, test_name, description test_cfg))"

subsection \<open>Console text\<close>

text \<open>
  The pictographs of the console messages, as their UTF-8 bytes. A console is the list of
  the texts printed, one entry for each \<^verbatim>\<open>print\<close> call.
\<close>

definition emoji_rocket :: string where
  "emoji_rocket = [CHR 0xF0, CHR 0x9F, CHR 0x9A, CHR 0x80]"

definition emoji_check_mark :: string where
  "emoji_check_mark = [CHR 0xE2, CHR 0x9C, CHR 0x85]"

definition emoji_cross_mark :: string where
  "emoji_cross_mark = [CHR 0xE2, CHR 0x9D, CHR 0x8C]"

definition emoji_target :: string where
  "emoji_target = [CHR 0xF0, CHR 0x9F, CHR 0x8E, CHR 0xAF]"

definition emoji_test_tube :: string where
  "emoji_test_tube = [CHR 0xF0, CHR 0x9F, CHR 0xA7, CHR 0xAA]"

definition emoji_bar_chart :: string where
  "emoji_bar_chart = [CHR 0xF0, CHR 0x9F, CHR 0x93, CHR 0x8A]"

definition emoji_globe :: string where
  "emoji_globe = [CHR 0xF0, CHR 0x9F, CHR 0x8C, CHR 0x90]"

definition emoji_gear :: string where
  "emoji_gear = [CHR 0xE2, CHR 0x9A, CHR 0x99, CHR 0xEF, CHR 0xB8, CHR 0x8F]"

definition emoji_warning_sign :: string where
  "emoji_warning_sign = [CHR 0xE2, CHR 0x9A, CHR 0xA0, CHR 0xEF, CHR 0xB8, CHR 0x8F]"

definition emoji_flag :: string where
  "emoji_flag = [CHR 0xF0, CHR 0x9F, CHR 0x8F, CHR 0x81]"

definition emoji_stopwatch :: string where
  "emoji_stopwatch = [CHR 0xE2, CHR 0x8F, CHR 0xB1, CHR 0xEF, CHR 0xB8, CHR 0x8F]"

definition emoji_page :: string where
  "emoji_page = [CHR 0xF0, CHR 0x9F, CHR 0x93, CHR 0x84]"

definition emoji_folder :: string where
  "emoji_folder = [CHR 0xF0, CHR 0x9F, CHR 0x93, CHR 0x81]"

definition nl :: string where
  "nl = [CHR 0x0A]"

text \<open>
  A duration is a Python float; it is modelled by the rational number the float stands
  for. \<^verbatim>\<open>format(x, ".<p>f")\<close> rounds the exact value to \<open>p\<close> decimals, a tie going to the
  even neighbour, and keeps the sign of a negative value.
\<close>

definition round_half_even :: "rat \<Rightarrow> int" where
  "round_half_even y =
     (let f = \<lfloor>y\<rfloor>; d = y - of_int f
      in if d < 1 / 2 then f
         else if 1 / 2 < d then f + 1
         else if even f then f else f + 1)"

definition format_f :: "nat \<Rightarrow> rat \<Rightarrow> string" where
  "format_f prec x =
     (let h = nat (round_half_even (\<bar>x\<bar> * 10 ^ prec));
          whole = h div 10 ^ prec;
          frac = map (\<lambda>k. digit_char (h div 10 ^ (prec - Suc k) mod 10)) [0..<prec]
      in (if x < 0 then ''-'' else []) @ str_nat whole @
         (if prec = 0 then [] else CHR ''.'' # frac))"

text \<open>The texts in which the two runner classes differ.\<close>

record labels =
  details_header :: string
  starting_label :: string
  rule_width :: nat
  init_title :: string
  categories_label :: string
  total_label :: string
  complete_title :: string

definition basic_labels :: labels where
  "basic_labels =
     \<lparr>details_header = ''--- TEST DETAILS ---'',
      starting_label = '' Starting test: '',
      rule_width = 70,
      init_title = '' MLO BASIC SIMULATION RUNNER INITIALIZING '',
      categories_label = '' Basic Test Categories: '',
      total_label = ''Total simulation runs to execute: '',
      complete_title = '' MLO BASIC SIMULATION RUN COMPLETE ''\<rparr>"

definition extreme_labels :: labels where
  "extreme_labels =
     \<lparr>details_header = ''--- EXTREME TEST DETAILS ---'',
      starting_label = '' Starting extreme test: '',
      rule_width = 80,
      init_title = '' MLO EXTREME SIMULATION RUNNER INITIALIZING '',
      categories_label = '' Extreme Test Categories: '',
      total_label = ''Total extreme simulation runs to execute: '',
      complete_title = '' MLO EXTREME SIMULATION RUN COMPLETE ''\<rparr>"

subsection \<open>Executing one invocation\<close>

text \<open>
  What \<^verbatim>\<open>subprocess.run\<close> does with the command. It returns when the process has run to its
  end and its two captured streams are decoded: a return code and the two texts. It raises
  when the process cannot be started, and also when the process has run to its end but a
  captured stream is not valid text (\<^verbatim>\<open>text=True\<close> decodes inside the call); \<^verbatim>\<open>str(e)\<close> is
  the text of the fault. A process that never ends is not a value of this type: the call
  has no timeout and \<^verbatim>\<open>run_single_test\<close> then never returns.
\<close>

datatype proc_result =
  Completed int string string
| Launch_fault string
| Decode_fault int string

text \<open>
  A fault of a \<^verbatim>\<open>with open(...) as f: f.write(...)\<close> block: \<^verbatim>\<open>open\<close> raises and the file is
  untouched, or a write or the closing flush raises after some first part of the text has
  reached the file.
\<close>

datatype io_fault = Open_fault string | Write_fault nat string

text \<open>
  The surroundings of one call of \<^verbatim>\<open>run_single_test\<close>: what the process does, the worker's
  observations of the clock, the fault (if any) of writing the log in the \<^verbatim>\<open>try\<close> block,
  the fault (if any) of appending to it in the \<^verbatim>\<open>except\<close> clause, and the fault (if any)
  of printing to the console of the worker. A console that cannot be written fails at the
  first \<^verbatim>\<open>print\<close>, which stands before the \<^verbatim>\<open>try\<close> block.
\<close>

record exec_env =
  proc :: proc_result
  execution_time :: rat
  now_isoformat :: string
  log_fault :: "io_fault option"
  handler_fault :: "io_fault option"
  console_fault :: "string option"

text \<open>
  How a call ends for its caller: it returns a value or it raises an exception with a
  text. This is also what \<^verbatim>\<open>future.result()\<close> gives for an invocation run in the pool.
\<close>

datatype future_outcome = Returned bool | Raised string

type_synonym files = "py_path \<Rightarrow> string option"

definition log_file_name :: "runner \<Rightarrow> string \<Rightarrow> string" where
  "log_file_name r test_name = test_name @ ''_'' @ timestamp r @ ''.log''"

definition log_content ::
  "labels \<Rightarrow> test_info \<Rightarrow> string \<Rightarrow> rat \<Rightarrow> int \<Rightarrow> string \<Rightarrow> string \<Rightarrow> string" where
  "log_content lb test_info stamp elapsed returncode out err =
     (case test_info of (command, test_name, descr) \<Rightarrow>
        details_header lb @ nl @
        ''Test Name: '' @ test_name @ nl @
        ''Description: '' @ descr @ nl @
        ''Timestamp: '' @ stamp @ nl @
        ''Execution Time: '' @ format_f 2 elapsed @ '' seconds'' @ nl @
        ''Return Code: '' @ str_int returncode @ nl @ nl @
        ''--- COMMAND ---'' @ nl @ command @ nl @ nl @
        ''--- STDOUT ---'' @ nl @
        out @
        nl @ ''--- STDERR ---'' @ nl @
        err)"

text \<open>
  Writing a text to a file in mode \<^verbatim>\<open>'w'\<close> (the file is replaced) or in mode \<^verbatim>\<open>'a'\<close> (the
  text is appended; the file is created if it is missing): the files afterwards and the
  text of the fault raised, if any.
\<close>

definition write_file ::
  "bool \<Rightarrow> io_fault option \<Rightarrow> py_path \<Rightarrow> string \<Rightarrow> files \<Rightarrow> files \<times> string option" where
  "write_file appending fault path content fs =
     (let before = (if appending then (case fs path of None \<Rightarrow> [] | Some old \<Rightarrow> old) else [])
      in case fault of
           None \<Rightarrow> (fs(path \<mapsto> before @ content), None)
         | Some (Open_fault msg) \<Rightarrow> (fs, Some msg)
         | Some (Write_fault k msg) \<Rightarrow> (fs(path \<mapsto> before @ take k content), Some msg))"

text \<open>
  \<^verbatim>\<open>run_single_test\<close>: how the call ends, the lines the worker prints, and the files
  afterwards. The \<^verbatim>\<open>except\<close> clause catches every fault of the \<^verbatim>\<open>try\<close> block, that of the
  process and that of writing the log file; a fault of the append inside the clause itself
  leaves the call, and so does a fault of the first \<^verbatim>\<open>print\<close>.
\<close>

definition except_clause ::
  "string \<Rightarrow> py_path \<Rightarrow> exec_env \<Rightarrow> string list \<Rightarrow> files \<Rightarrow> string \<Rightarrow>
   future_outcome \<times> string list \<times> files" where
  "except_clause test_name log_file_path env out fs e =
     (let out = out @ [emoji_cross_mark @ '' CRITICAL ERROR: '' @ test_name @
                       ''. See log for details: '' @ path_str log_file_path]
      in case write_file True (handler_fault env) log_file_path
                (nl @ ''--- PYTHON EXCEPTION ---'' @ nl @ e) fs of
           (fs, None) \<Rightarrow> (Returned False, out, fs)
         | (fs, Some msg) \<Rightarrow> (Raised msg, out, fs))"

definition run_single_test_with ::
  "labels \<Rightarrow> runner \<Rightarrow> test_info \<Rightarrow> exec_env \<Rightarrow> files \<Rightarrow>
   future_outcome \<times> string list \<times> files" where
  "run_single_test_with lb r test_info env fs =
     (case test_info of (command, test_name, descr) \<Rightarrow>
        let log_file_path = path_div (log_dir r) (log_file_name r test_name);
            out = [emoji_rocket @ starting_label lb @ test_name]
        in case console_fault env of
             Some msg \<Rightarrow> (Raised msg, [], fs)
           | None \<Rightarrow>
           (case proc env of
              Launch_fault e \<Rightarrow> except_clause test_name log_file_path env out fs e
            | Decode_fault returncode e \<Rightarrow>
                except_clause test_name log_file_path env out fs e
            | Completed returncode stdout stderr \<Rightarrow>
                (case write_file False (log_fault env) log_file_path
                        (log_content lb test_info (now_isoformat env) (execution_time env)
                           returncode stdout stderr) fs of
                   (fs, Some msg) \<Rightarrow> except_clause test_name log_file_path env out fs msg
                 | (fs, None) \<Rightarrow>
                     if returncode = 0
                     then (Returned True,
                           out @ [emoji_check_mark @ '' SUCCESS: '' @ test_name @
                                  '' (took '' @ format_f 1 (execution_time env) @ ''s)''],
                           fs)
                     else (Returned False,
                           out @ [emoji_cross_mark @ '' FAILED: '' @ test_name @
                                  ''. See log for details: '' @ path_str log_file_path],
                           fs))))"

definition run_single_test ::
  "runner \<Rightarrow> test_info \<Rightarrow> exec_env \<Rightarrow> files \<Rightarrow> future_outcome \<times> string list \<times> files" where
  "run_single_test = run_single_test_with basic_labels"

definition extreme_run_single_test ::
  "runner \<Rightarrow> test_info \<Rightarrow> exec_env \<Rightarrow> files \<Rightarrow> future_outcome \<times> string list \<times> files" where
  "extreme_run_single_test = run_single_test_with extreme_labels"

subsection \<open>Matrix expansion\<close>

text \<open>
  The four nested loops of \<^verbatim>\<open>run_all_tests\<close>, innermost first. The loop state is the list
  \<^verbatim>\<open>all_tests_to_run\<close> and \<^verbatim>\<open>test_id_counter\<close>; the outermost loop also prints. The call
  made in the innermost body is the parameter \<open>gen\<close>: \<^verbatim>\<open>run_all_tests\<close> passes
  \<^verbatim>\<open>generate_test_command\<close>.
\<close>

type_synonym 'a builder = "string \<Rightarrow> test_config \<Rightarrow> string \<Rightarrow> string \<Rightarrow> int \<Rightarrow> 'a"

fun protocol_loop ::
  "'a builder \<Rightarrow> string \<Rightarrow> test_config \<Rightarrow> string \<Rightarrow> string list \<Rightarrow>
   'a list \<times> int \<Rightarrow> 'a list \<times> int" where
  "protocol_loop gen category_name test_cfg strategy [] st = st"
| "protocol_loop gen category_name test_cfg strategy (protocol # rest)
     (all_tests_to_run, test_id_counter) =
     (let test_id_counter = test_id_counter + 1;
          t = gen category_name test_cfg strategy protocol test_id_counter
      in protocol_loop gen category_name test_cfg strategy rest
           (all_tests_to_run @ [t], test_id_counter))"

fun strategy_loop ::
  "'a builder \<Rightarrow> string \<Rightarrow> test_config \<Rightarrow> string list \<Rightarrow> string list \<Rightarrow>
   'a list \<times> int \<Rightarrow> 'a list \<times> int" where
  "strategy_loop gen category_name test_cfg [] protocols_to_test st = st"
| "strategy_loop gen category_name test_cfg (strategy # rest) protocols_to_test st =
     strategy_loop gen category_name test_cfg rest protocols_to_test
       (protocol_loop gen category_name test_cfg strategy protocols_to_test st)"

fun test_loop ::
  "'a builder \<Rightarrow> string \<Rightarrow> test_config list \<Rightarrow> string list \<Rightarrow> string list \<Rightarrow>
   'a list \<times> int \<Rightarrow> 'a list \<times> int" where
  "test_loop gen category_name [] strategies_to_test protocols_to_test st = st"
| "test_loop gen category_name (test_cfg # rest) strategies_to_test protocols_to_test st =
     test_loop gen category_name rest strategies_to_test protocols_to_test
       (strategy_loop gen category_name test_cfg strategies_to_test protocols_to_test st)"

definition not_found_warning :: "string \<Rightarrow> string" where
  "not_found_warning category_name =
     emoji_warning_sign @ '' Warning: Scenario category '' @ [CHR 0x27] @ category_name @
     [CHR 0x27] @ '' not found. Skipping.''"

fun category_loop ::
  "'a builder \<Rightarrow> (string \<times> category) list \<Rightarrow> string list \<Rightarrow> string list \<Rightarrow> string list \<Rightarrow>
   string list \<times> 'a list \<times> int \<Rightarrow> string list \<times> 'a list \<times> int" where
  "category_loop gen catalog [] strategies_to_test protocols_to_test st = st"
| "category_loop gen catalog (category_name # rest) strategies_to_test protocols_to_test
     (out, st) =
     (case map_of catalog category_name of
        None \<Rightarrow>
          category_loop gen catalog rest strategies_to_test protocols_to_test
            (out @ [not_found_warning category_name], st)
      | Some category \<Rightarrow>
          category_loop gen catalog rest strategies_to_test protocols_to_test
            (out, test_loop gen category_name (tests category) strategies_to_test
                    protocols_to_test st))"

text \<open>
  \<^verbatim>\<open>int(self.timestamp.split('_')[1])\<close>, the first value of the counter: an
  \<^verbatim>\<open>IndexError\<close> when the timestamp has no underscore, a \<^verbatim>\<open>ValueError\<close> when the second
  piece is not a number.
\<close>

definition test_id_start :: "runner \<Rightarrow> py_error + int" where
  "test_id_start r =
     (case split_on CHR ''_'' (timestamp r) of
        _ # piece # _ \<Rightarrow> py_int piece
      | _ \<Rightarrow> Inl IndexError)"

text \<open>The selection after the defaults are filled in.\<close>

definition categories_to_run :: "runner \<Rightarrow> string list option \<Rightarrow> string list" where
  "categories_to_run r categories = or_else categories (map fst (scenarios r))"

definition strategies_to_test :: "runner \<Rightarrow> string list option \<Rightarrow> string list" where
  "strategies_to_test r strategies_sel = or_else strategies_sel (strategies r)"

definition protocols_to_test :: "runner \<Rightarrow> string list option \<Rightarrow> string list" where
  "protocols_to_test r protocols_sel = or_else protocols_sel (protocols r)"

text \<open>
  The expansion part of \<^verbatim>\<open>run_all_tests\<close> on its own: the warnings printed, the list
  \<^verbatim>\<open>all_tests_to_run\<close> and the final counter, for any innermost call \<open>gen\<close>.
\<close>

definition expand_matrix ::
  "'a builder \<Rightarrow> runner \<Rightarrow> string list option \<Rightarrow> string list option \<Rightarrow> string list option \<Rightarrow>
   py_error + string list \<times> 'a list \<times> int" where
  "expand_matrix gen r categories strategies_sel protocols_sel =
     (case test_id_start r of
        Inl e \<Rightarrow> Inl e
      | Inr test_id_counter \<Rightarrow>
          Inr (category_loop gen (scenarios r) (categories_to_run r categories)
                 (strategies_to_test r strategies_sel) (protocols_to_test r protocols_sel)
                 ([], [], test_id_counter)))"

definition all_tests_to_run ::
  "runner \<Rightarrow> string list option \<Rightarrow> string list option \<Rightarrow> string list option \<Rightarrow>
   py_error + test_info list" where
  "all_tests_to_run r categories strategies_sel protocols_sel =
     (case expand_matrix (generate_test_command r) r categories strategies_sel protocols_sel of
        Inl e \<Rightarrow> Inl e
      | Inr (out, ts, test_id_counter) \<Rightarrow> Inr ts)"

text \<open>
  The arguments with which the innermost body calls \<^verbatim>\<open>generate_test_command\<close>, observed by
  running the same loops with a call that records them; the last one is the seed.
\<close>

type_synonym cell = "string \<times> test_config \<times> string \<times> string \<times> int"

definition record_call :: "cell builder" where
  "record_call category_name test_cfg strategy protocol seed =
     (category_name, test_cfg, strategy, protocol, seed)"

definition generated_calls ::
  "runner \<Rightarrow> string list option \<Rightarrow> string list option \<Rightarrow> string list option \<Rightarrow>
   py_error + cell list" where
  "generated_calls r categories strategies_sel protocols_sel =
     (case expand_matrix record_call r categories strategies_sel protocols_sel of
        Inl e \<Rightarrow> Inl e
      | Inr (out, cs, test_id_counter) \<Rightarrow> Inr cs)"

definition seed_of :: "cell \<Rightarrow> int" where
  "seed_of c = (case c of (category_name, test_cfg, strategy, protocol, seed) \<Rightarrow> seed)"

definition assigned_seeds ::
  "runner \<Rightarrow> string list option \<Rightarrow> string list option \<Rightarrow> string list option \<Rightarrow>
   py_error + int list" where
  "assigned_seeds r categories strategies_sel protocols_sel =
     (case generated_calls r categories strategies_sel protocols_sel of
        Inl e \<Rightarrow> Inl e
      | Inr cs \<Rightarrow> Inr (map seed_of cs))"

subsection \<open>The worker pool and the collection of results\<close>

text \<open>
  The surroundings of one call of \<^verbatim>\<open>run_all_tests\<close>: the number of processing units, the
  outcome of the future of each submitted invocation (how \<^verbatim>\<open>run_single_test\<close> ended in the
  worker, or the fault of the pool), the order in which futures complete
  (\<open>completion_pick\<close> chooses, from the number of futures still pending, which of them
  finishes next) and the wall-clock time of the batch. It describes the calls in which
  every submission is accepted and every submitted future completes; the source waits for
  the futures without a timeout, and a future that never completes is not described.
\<close>

record pool_env =
  cpu_count :: nat
  future_result :: "test_info \<Rightarrow> future_outcome"
  completion_pick :: "nat \<Rightarrow> nat"
  total_execution_time :: rat

type_synonym future = "test_info \<times> future_outcome"

definition submit :: "pool_env \<Rightarrow> test_info \<Rightarrow> future" where
  "submit env test = (test, future_result env test)"

text \<open>
  \<^verbatim>\<open>as_completed\<close> yields every pending future once, in the order of completion. The
  first argument bounds the number of futures yielded; \<open>as_completed\<close> starts it at the
  number of futures.
\<close>

primrec drain :: "nat \<Rightarrow> (nat \<Rightarrow> nat) \<Rightarrow> 'a list \<Rightarrow> 'a list" where
  "drain 0 pick pending = []"
| "drain (Suc n) pick pending =
     (if pending = [] then []
      else let i = pick (length pending) mod length pending
           in pending ! i # drain n pick (take i pending @ drop (Suc i) pending))"

definition as_completed :: "(nat \<Rightarrow> nat) \<Rightarrow> 'a list \<Rightarrow> 'a list" where
  "as_completed pick futures = drain (length futures) pick futures"

fun collect_results :: "future list \<Rightarrow> int \<times> int \<times> string list \<Rightarrow> int \<times> int \<times> string list" where
  "collect_results [] st = st"
| "collect_results ((test, res) # rest) (successful_runs, failed_runs, out) =
     (case res of
        Returned success \<Rightarrow>
          if success then collect_results rest (successful_runs + 1, failed_runs, out)
          else collect_results rest (successful_runs, failed_runs + 1, out)
      | Raised exc \<Rightarrow>
          collect_results rest
            (successful_runs, failed_runs + 1,
             out @ [''A test generated an exception: '' @ exc]))"

subsection \<open>The whole run\<close>

record summary =
  submitted :: "test_info list"
  successful_runs :: int
  failed_runs :: int

text \<open>
  \<^verbatim>\<open>run_all_tests\<close>: the console, and either the exception that ends the call or the
  invocations submitted with the two counters. Without \<^verbatim>\<open>max_workers\<close> the pool has one
  worker for each processing unit; \<^verbatim>\<open>ProcessPoolExecutor\<close> refuses a worker count that is
  not positive with a \<^verbatim>\<open>ValueError\<close> (the upper limit that some platforms put on the
  count is left out).
\<close>

definition pool_size :: "pool_env \<Rightarrow> int option \<Rightarrow> int" where
  "pool_size env max_workers =
     (case max_workers of None \<Rightarrow> int (cpu_count env) | Some n \<Rightarrow> n)"

definition run_all_tests_with ::
  "labels \<Rightarrow> pool_env \<Rightarrow> runner \<Rightarrow> int option \<Rightarrow>
   string list option \<Rightarrow> string list option \<Rightarrow> string list option \<Rightarrow>
   string list \<times> (py_error + summary)" where
  "run_all_tests_with lb env r max_workers categories strategies_sel protocols_sel =
     (let max_workers = pool_size env max_workers;
          out = [nl @ replicate (rule_width lb) CHR ''='',
                 emoji_target @ init_title lb @ emoji_target,
                 replicate (rule_width lb) CHR ''=''];
          cats = categories_to_run r categories;
          strats = strategies_to_test r strategies_sel;
          protos = protocols_to_test r protocols_sel;
          out = out @
                [emoji_test_tube @ categories_label lb @ join '', '' cats,
                 emoji_bar_chart @ '' Strategies: '' @ join '', '' strats,
                 emoji_globe @ '' Protocols: '' @ join '', '' protos,
                 emoji_gear @ '' Parallel Workers: '' @ str_int max_workers]
      in case test_id_start r of
           Inl e \<Rightarrow> (out, Inl e)
         | Inr test_id_counter \<Rightarrow>
             (case category_loop (generate_test_command r) (scenarios r) cats strats protos
                     (out, [], test_id_counter) of
                (out, all_tests, test_id_counter) \<Rightarrow>
                  let out = out @ [nl @ total_label lb @ str_int (int (length all_tests)) @ nl]
                  in if max_workers \<le> 0 then (out, Inl ValueError)
                     else
                       (case collect_results
                               (as_completed (completion_pick env) (map (submit env) all_tests))
                               (0, 0, out) of
                          (successful, failed, out) \<Rightarrow>
                            (out @
                             [nl @ replicate (rule_width lb) CHR ''='',
                              emoji_flag @ complete_title lb @ emoji_flag,
                              replicate (rule_width lb) CHR ''='',
                              emoji_stopwatch @ ''  Total execution time: '' @
                                format_f 2 (total_execution_time env) @ '' seconds'',
                              emoji_check_mark @ '' Successful runs: '' @ str_int successful,
                              emoji_cross_mark @ '' Failed runs: '' @ str_int failed,
                              emoji_page @ '' All results appended to: '' @
                                path_str (output_csv_path r),
                              emoji_folder @ '' Detailed logs are in: '' @ path_str (log_dir r)],
                             Inr \<lparr>submitted = all_tests,
                                  successful_runs = successful,
                                  failed_runs = failed\<rparr>))))"

definition run_all_tests ::
  "pool_env \<Rightarrow> runner \<Rightarrow> int option \<Rightarrow>
   string list option \<Rightarrow> string list option \<Rightarrow> string list option \<Rightarrow>
   string list \<times> (py_error + summary)" where
  "run_all_tests = run_all_tests_with basic_labels"

definition extreme_run_all_tests ::
  "pool_env \<Rightarrow> runner \<Rightarrow> int option \<Rightarrow>
   string list option \<Rightarrow> string list option \<Rightarrow> string list option \<Rightarrow>
   string list \<times> (py_error + summary)" where
  "extreme_run_all_tests = run_all_tests_with extreme_labels"

subsection \<open>The statements of the specification\<close>

text \<open>
  The shape of a spawned command in the words of the specification: the entry point, the
  seven flags and the parameter string, separated by single blanks.
\<close>

definition spawned_command_shape ::
  "string \<Rightarrow> string \<Rightarrow> string \<Rightarrow> string \<Rightarrow> string \<Rightarrow> string \<Rightarrow> string \<Rightarrow> string" where
  "spawned_command_shape entry s p n path scenario_id parameter_string =
     join '' ''
       [entry, ''--strategy='' @ s, ''--protocol='' @ p, ''--seed='' @ n,
        ''--csvFile='' @ path, ''--scenario='' @ scenario_id, ''--runNumber='' @ n,
        ''--verbose=1'', parameter_string]"

text \<open>
  The cells of the test matrix in the nested order category, scenario (catalog order),
  strategy, protocol; a category that the catalog lacks has no cells.
\<close>

definition scenarios_for :: "(string \<times> category) list \<Rightarrow> string \<Rightarrow> test_config list" where
  "scenarios_for catalog c = (case map_of catalog c of None \<Rightarrow> [] | Some cat \<Rightarrow> tests cat)"

definition matrix_cells ::
  "(string \<times> category) list \<Rightarrow> string list \<Rightarrow> string list \<Rightarrow> string list \<Rightarrow>
   (string \<times> test_config \<times> string \<times> string) list" where
  "matrix_cells catalog cats strats protos =
     concat (map (\<lambda>c.
       concat (map (\<lambda>t.
         concat (map (\<lambda>s.
           map (\<lambda>p. (c, t, s, p)) protos) strats)) (scenarios_for catalog c))) cats)"

text \<open>Seeds from a counter that is incremented before each use.\<close>

fun seeded :: "int \<Rightarrow> 'a list \<Rightarrow> ('a \<times> int) list" where
  "seeded k [] = []"
| "seeded k (x # xs) = (x, k + 1) # seeded (k + 1) xs"

definition build :: "'a builder \<Rightarrow> (string \<times> test_config \<times> string \<times> string) \<times> int \<Rightarrow> 'a" where
  "build gen x = (case x of ((c, t, s, p), n) \<Rightarrow> gen c t s p n)"

text \<open>The time of day of a clock reading, read as the decimal number HHMMSS.\<close>

definition time_of_day :: "datetime \<Rightarrow> int" where
  "time_of_day now = int (hour now * 10000 + minute now * 100 + second now)"

definition valid_clock :: "datetime \<Rightarrow> bool" where
  "valid_clock now = (hour now < 24 \<and> minute now < 60 \<and> second now < 60)"

text \<open>The seeds \<open>base + 1, \<dots>, base + n\<close>.\<close>

definition seed_range :: "int \<Rightarrow> nat \<Rightarrow> int list" where
  "seed_range base n = map (\<lambda>i. base + 1 + int i) [0..<n]"

definition matrix_size ::
  "runner \<Rightarrow> string list option \<Rightarrow> string list option \<Rightarrow> string list option \<Rightarrow> nat" where
  "matrix_size r categories strategies_sel protocols_sel =
     length (matrix_cells (scenarios r) (categories_to_run r categories)
               (strategies_to_test r strategies_sel) (protocols_to_test r protocols_sel))"

definition call_of :: "runner \<Rightarrow> cell \<Rightarrow> test_info" where
  "call_of r x = (case x of (c, t, s, p, n) \<Rightarrow> generate_test_command r c t s p n)"

definition raised :: "future_outcome \<Rightarrow> bool" where
  "raised res = (case res of Raised exc \<Rightarrow> True | Returned success \<Rightarrow> False)"

text \<open>
  The log artifact in the words of the specification: the lines of the details section
  under their header, a blank line, the command section, a blank line, the captured
  output and the captured errors, each under its header.
\<close>

definition log_artifact_shape ::
  "string \<Rightarrow> string \<Rightarrow> string \<Rightarrow> string \<Rightarrow> string \<Rightarrow> int \<Rightarrow>
   string \<Rightarrow> string \<Rightarrow> string \<Rightarrow> string" where
  "log_artifact_shape header run_id descr stamp seconds code command out err =
     join nl
       [header,
        ''Test Name: '' @ run_id,
        ''Description: '' @ descr,
        ''Timestamp: '' @ stamp,
        ''Execution Time: '' @ seconds @ '' seconds'',
        ''Return Code: '' @ str_int code,
        [],
        ''--- COMMAND ---'',
        command,
        [],
        ''--- STDOUT ---'',
        out,
        ''--- STDERR ---'',
        err]"

text \<open>A number text with exactly two digits after its only decimal point.\<close>

definition two_decimals :: "string \<Rightarrow> bool" where
  "two_decimals s =
     (case rev s of
        d2 # d1 # dot # whole \<Rightarrow>
          dot = CHR ''.'' \<and> d1 \<in> set ''0123456789'' \<and> d2 \<in> set ''0123456789'' \<and>
          whole \<noteq> [] \<and> CHR ''.'' \<notin> set whole
      | _ \<Rightarrow> False)"

definition first_line :: "string \<Rightarrow> string" where
  "first_line s = takeWhile (\<lambda>c. c \<noteq> CHR 0x0A) s"


subsection \<open>Concrete runs\<close>

definition example_clock :: datetime where
  "example_clock = \<lparr>year = 2026, month = 11, day = 4, hour = 7, minute = 22, second = 45\<rparr>"

definition next_second_clock :: datetime where
  "next_second_clock = \<lparr>year = 2026, month = 11, day = 4, hour = 7, minute = 22, second = 46\<rparr>"

definition example_runner :: runner where
  "example_runner = MLOSimulationRunner cwd example_clock"

definition next_second_runner :: runner where
  "next_second_runner = MLOSimulationRunner cwd next_second_clock"

definition example_extreme_runner :: runner where
  "example_extreme_runner = MLOExtremeSimulationRunner cwd example_clock"

text \<open>
  A pool of four workers in which the future of one invocation raises, the invocation
  after it returns failure and every other one returns success.
\<close>

definition example_pool :: pool_env where
  "example_pool =
     \<lparr>cpu_count = 4,
      future_result = (\<lambda>test.
        if test_name_of test = ''failure_recovery_random_failures_mixed_tid_Greedy_UDP_72246''
        then Raised ''A process in the process pool was terminated abruptly''
        else if test_name_of test = ''failure_recovery_random_failures_mixed_tid_Greedy_TCP_72247''
        then Returned False
        else Returned True),
      completion_pick = (\<lambda>n. 2 * n + 1),
      total_execution_time = 5 / 4\<rparr>"

text \<open>One invocation of the example run, and what may happen to its process.\<close>

definition example_test :: test_info where
  "example_test =
     generate_test_command example_runner ''failure_recovery'' (hd failure_recovery_tests)
       ''Greedy'' ''UDP'' 72246"

definition exit_env :: "int \<Rightarrow> exec_env" where
  "exit_env code =
     \<lparr>proc = Completed code ''simulation output'' ''Killed'',
      execution_time = 5 / 4,
      now_isoformat = ''2026-11-04T07:22:47.000123'',
      log_fault = None,
      handler_fault = None,
      console_fault = None\<rparr>"

definition fault_env :: "string \<Rightarrow> exec_env" where
  "fault_env e =
     \<lparr>proc = Launch_fault e,
      execution_time = 0,
      now_isoformat = ''2026-11-04T07:22:47.000123'',
      log_fault = None,
      handler_fault = None,
      console_fault = None\<rparr>"

text \<open>
  A process that exits with code 0 after printing bytes that are not valid text, and a
  process that exits with code 0 while the device of the log file is full.
\<close>

definition undecodable_env :: exec_env where
  "undecodable_env =
     \<lparr>proc = Decode_fault 0
        ''utf-8 codec cannot decode byte 0xff in position 0: invalid start byte'',
      execution_time = 5 / 4,
      now_isoformat = ''2026-11-04T07:22:47.000123'',
      log_fault = None,
      handler_fault = None,
      console_fault = None\<rparr>"

definition full_device_env :: exec_env where
  "full_device_env =
     \<lparr>proc = Completed 0 ''simulation output'' [],
      execution_time = 5 / 4,
      now_isoformat = ''2026-11-04T07:22:47.000123'',
      log_fault = Some (Write_fault 0 ''[Errno 28] No space left on device''),
      handler_fault = Some (Write_fault 0 ''[Errno 28] No space left on device''),
      console_fault = None\<rparr>"

text \<open>A command that cannot be started while the device of the log file is full.\<close>

definition fault_full_device_env :: exec_env where
  "fault_full_device_env =
     \<lparr>proc = Launch_fault ''[Errno 2] No such file or directory'',
      execution_time = 0,
      now_isoformat = ''2026-11-04T07:22:47.000123'',
      log_fault = None,
      handler_fault = Some (Write_fault 0 ''[Errno 28] No space left on device''),
      console_fault = None\<rparr>"

section \<open>Properties\<close>

subsection \<open>Decimal rendering\<close>

lemma digit_char_inj: "d < 10 \<Longrightarrow> e < 10 \<Longrightarrow> digit_char d = digit_char e \<Longrightarrow> d = e"
proof -
  assume "d < 10" "e < 10" "digit_char d = digit_char e"
  moreover have "distinct ''0123456789''" by simp
  ultimately show ?thesis
    unfolding digit_char_def by (simp add: nth_eq_iff_index_eq)
qed

lemma digit_char_in: "d < 10 \<Longrightarrow> digit_char d \<in> set ''0123456789''"
  unfolding digit_char_def by (rule nth_mem) simp

lemma str_nat_digits: "set (str_nat n) \<subseteq> set ''0123456789''"
proof (induction n rule: str_nat.induct)
  case (1 n)
  show ?case
  proof (cases "n < 10")
    case True
    then show ?thesis using digit_char_in [of n] by (subst str_nat.simps) simp
  next
    case False
    have "n mod 10 < 10" by simp
    then have "digit_char (n mod 10) \<in> set ''0123456789''" by (rule digit_char_in)
    with False 1 show ?thesis by (subst str_nat.simps) simp
  qed
qed

lemma str_nat_not_Nil: "str_nat n \<noteq> []"
  by (subst str_nat.simps) simp

lemma str_nat_last: "last (str_nat n) = digit_char (n mod 10)"
  by (subst str_nat.simps) simp

lemma str_nat_butlast: "butlast (str_nat n) = (if n < 10 then [] else str_nat (n div 10))"
  by (subst str_nat.simps) simp

lemma str_nat_inj: "str_nat m = str_nat n \<Longrightarrow> m = n"
proof (induction m arbitrary: n rule: str_nat.induct)
  case (1 m)
  from "1.prems" have l: "digit_char (m mod 10) = digit_char (n mod 10)"
    using str_nat_last [of m] str_nat_last [of n] by simp
  have "m mod 10 < 10" "n mod 10 < 10" by simp_all
  with l have md: "m mod 10 = n mod 10" by (rule digit_char_inj [rotated 2])
  from "1.prems" have b: "butlast (str_nat m) = butlast (str_nat n)" by simp
  show ?case
  proof (cases "m < 10")
    case True
    with b have "n < 10" using str_nat_not_Nil [of "n div 10"]
      by (auto simp: str_nat_butlast split: if_splits)
    with True md show ?thesis by simp
  next
    case False
    with b have n: "\<not> n < 10" using str_nat_not_Nil [of "m div 10"]
      by (auto simp: str_nat_butlast split: if_splits)
    with False b have "str_nat (m div 10) = str_nat (n div 10)"
      by (simp add: str_nat_butlast)
    with False "1.IH" have "m div 10 = n div 10" by simp
    with md show ?thesis by (metis div_mult_mod_eq)
  qed
qed

lemma str_int_inj: "str_int i = str_int j \<Longrightarrow> i = j"
proof -
  assume e: "str_int i = str_int j"
  have nd: "\<And>n. hd (str_nat n) \<noteq> CHR ''-''"
  proof -
    fix n
    have "hd (str_nat n) \<in> set (str_nat n)" using str_nat_not_Nil by simp
    then have "hd (str_nat n) \<in> set ''0123456789''" using str_nat_digits by blast
    then show "hd (str_nat n) \<noteq> CHR ''-''" by auto
  qed
  show ?thesis
  proof (cases "i < 0")
    case True
    show ?thesis
    proof (cases "j < 0")
      case j: True
      with True e have "str_nat (nat (- i)) = str_nat (nat (- j))" by (simp add: str_int_def)
      then have "nat (- i) = nat (- j)" by (rule str_nat_inj)
      with True j show ?thesis by simp
    next
      case j: False
      with True e nd [of "nat j"] show ?thesis
        by (simp add: str_int_def) (metis list.sel(1))
    qed
  next
    case False
    show ?thesis
    proof (cases "j < 0")
      case j: True
      with False e nd [of "nat i"] show ?thesis
        by (auto simp: str_int_def)
    next
      case j: False
      with False e have "str_nat (nat i) = str_nat (nat j)" by (simp add: str_int_def)
      then have "nat i = nat j" by (rule str_nat_inj)
      with False j show ?thesis by simp
    qed
  qed
qed

lemma str_int_no_underscore: "CHR ''_'' \<notin> set (str_int i)"
  using str_nat_digits [of "nat i"] str_nat_digits [of "nat (- i)"]
  by (auto simp: str_int_def)

subsection \<open>The nested loops enumerate the matrix\<close>

lemma seeded_append: "seeded k (xs @ ys) = seeded k xs @ seeded (k + int (length xs)) ys"
  by (induction xs arbitrary: k) (simp_all add: algebra_simps)

lemma map_fst_seeded: "map fst (seeded k xs) = xs"
  by (induction xs arbitrary: k) simp_all

lemma length_seeded: "length (seeded k xs) = length xs"
  by (induction xs arbitrary: k) simp_all

lemma map_snd_seeded: "map snd (seeded k xs) = map (\<lambda>i. k + 1 + int i) [0..<length xs]"
proof (induction xs arbitrary: k)
  case Nil
  then show ?case by simp
next
  case (Cons x xs)
  have "[0..<Suc (length xs)] = 0 # map Suc [0..<length xs]"
    by (simp add: upt_conv_Cons map_Suc_upt del: upt_Suc)
  then show ?case using Cons [of "k + 1"] by (simp add: o_def algebra_simps del: upt_Suc)
qed

lemma protocol_loop_eq:
  "protocol_loop gen c t s ps (acc, k) =
     (acc @ map (build gen) (seeded k (map (\<lambda>p. (c, t, s, p)) ps)), k + int (length ps))"
  by (induction ps arbitrary: acc k) (simp_all add: build_def Let_def algebra_simps)

lemma strategy_loop_eq:
  "strategy_loop gen c t ss ps (acc, k) =
     (acc @ map (build gen) (seeded k (concat (map (\<lambda>s. map (\<lambda>p. (c, t, s, p)) ps) ss))),
      k + int (length (concat (map (\<lambda>s. map (\<lambda>p. (c, t, s, p)) ps) ss))))"
  by (induction ss arbitrary: acc k)
     (simp_all add: protocol_loop_eq seeded_append algebra_simps)

lemma test_loop_eq:
  "test_loop gen c ts ss ps (acc, k) =
     (acc @ map (build gen) (seeded k (concat (map (\<lambda>t.
         concat (map (\<lambda>s. map (\<lambda>p. (c, t, s, p)) ps) ss)) ts))),
      k + int (length (concat (map (\<lambda>t.
         concat (map (\<lambda>s. map (\<lambda>p. (c, t, s, p)) ps) ss)) ts))))"
  by (induction ts arbitrary: acc k)
     (simp_all add: strategy_loop_eq seeded_append algebra_simps)

lemma category_loop_eq:
  "category_loop gen catalog cs ss ps (out, acc, k) =
     (out @ map not_found_warning (filter (\<lambda>c. map_of catalog c = None) cs),
      acc @ map (build gen) (seeded k (matrix_cells catalog cs ss ps)),
      k + int (length (matrix_cells catalog cs ss ps)))"
proof (induction cs arbitrary: out acc k)
  case Nil
  then show ?case by (simp add: matrix_cells_def)
next
  case (Cons c cs)
  show ?case
  proof (cases "map_of catalog c")
    case None
    then show ?thesis using Cons by (simp add: matrix_cells_def scenarios_for_def)
  next
    case (Some cat)
    then show ?thesis using Cons
      by (simp add: matrix_cells_def scenarios_for_def test_loop_eq seeded_append algebra_simps)
  qed
qed

lemma length_matrix_cells:
  "length (matrix_cells catalog cs ss ps) =
     (\<Sum>c\<leftarrow>cs. length (scenarios_for catalog c) * length ss * length ps)"
proof -
  have row: "\<And>c t. length (concat (map (\<lambda>s. map (\<lambda>p. (c, t, s, p)) ps) ss)) = length ss * length ps"
    by (induction ss) simp_all
  have cat: "\<And>c ts. length (concat (map (\<lambda>t. concat (map (\<lambda>s. map (\<lambda>p. (c, t, s, p)) ps) ss)) ts))
      = length ts * length ss * length ps"
    subgoal for c ts by (induction ts) (simp_all add: row algebra_simps)
    done
  show ?thesis
    unfolding matrix_cells_def by (induction cs) (simp_all add: cat)
qed

subsection \<open>Run identifiers end in the seed\<close>

lemma last_piece_eq:
  assumes "xs @ c # a = ys @ c # b" and "c \<notin> set a" and "c \<notin> set b"
  shows "a = b"
proof -
  have "takeWhile (\<lambda>x. x \<noteq> c) (rev (zs @ c # d)) = rev d" if "c \<notin> set d" for zs d
  proof -
    have "takeWhile (\<lambda>x. x \<noteq> c) (rev d @ (c # rev zs)) =
          rev d @ takeWhile (\<lambda>x. x \<noteq> c) (c # rev zs)"
      using that by (intro takeWhile_append2) auto
    then show ?thesis by simp
  qed
  with assms have "rev a = rev b" by metis
  then show ?thesis by simp
qed

lemma test_name_seed_inj:
  assumes "test_name_of (generate_test_command r c t s p n) =
           test_name_of (generate_test_command r' c' t' s' p' n')"
  shows "n = n'"
proof -
  from assms have
    "(c @ ''_'' @ name t @ ''_'' @ s @ ''_'' @ p) @ CHR ''_'' # str_int n =
     (c' @ ''_'' @ name t' @ ''_'' @ s' @ ''_'' @ p') @ CHR ''_'' # str_int n'"
    by (simp add: generate_test_command_def test_name_of_def Let_def)
  then have "str_int n = str_int n'"
    by (rule last_piece_eq) (rule str_int_no_underscore)+
  then show ?thesis by (rule str_int_inj)
qed

lemma distinct_seeds: "distinct (map snd (seeded k xs))"
  by (simp add: map_snd_seeded distinct_map inj_on_def)

lemma distinct_test_names:
  "distinct (map (\<lambda>x. test_name_of (build (generate_test_command r) x)) (seeded k xs))"
proof -
  let ?ys = "seeded k xs"
  have d: "distinct (map snd ?ys)" by (rule distinct_seeds)
  then have dy: "distinct ?ys" and inj: "inj_on snd (set ?ys)"
    by (simp_all add: distinct_map)
  have "inj_on (\<lambda>x. test_name_of (build (generate_test_command r) x)) (set ?ys)"
  proof (rule inj_onI)
    fix x y
    assume x: "x \<in> set ?ys" and y: "y \<in> set ?ys"
      and e: "test_name_of (build (generate_test_command r) x) =
              test_name_of (build (generate_test_command r) y)"
    obtain c t s p n where xe: "x = ((c, t, s, p), n)" by (metis prod_cases5 surj_pair)
    obtain c' t' s' p' n' where ye: "y = ((c', t', s', p'), n')" by (metis prod_cases5 surj_pair)
    from e have "n = n'" unfolding xe ye build_def by (simp add: test_name_seed_inj)
    then have "snd x = snd y" by (simp add: xe ye)
    with inj x y show "x = y" by (simp add: inj_on_def)
  qed
  with dy show ?thesis by (simp add: distinct_map)
qed

subsection \<open>The first value of the counter\<close>

lemma split_on_none: "sep \<notin> set b \<Longrightarrow> split_on sep b = [b]"
  by (induction b) auto

lemma split_on_once:
  "sep \<notin> set a \<Longrightarrow> sep \<notin> set b \<Longrightarrow> split_on sep (a @ sep # b) = [a, b]"
  by (induction a) (auto simp: split_on_none)

lemma digit_val_digit_char: "d < 10 \<Longrightarrow> digit_val (digit_char d) = Some d"
proof -
  assume "d < 10"
  then have "d \<in> {0, 1, 2, 3, 4, 5, 6, 7, 8, 9}" by auto
  then show ?thesis
    by (auto simp: digit_val_def digit_char_def)
qed

lemma digits_val_append:
  "digits_val acc (xs @ ys) =
     (case digits_val acc xs of None \<Rightarrow> None | Some a \<Rightarrow> digits_val a ys)"
  by (induction xs arbitrary: acc) (auto split: option.splits)

lemma pad2_eq: "n < 100 \<Longrightarrow> pad2 n = [digit_char (n div 10), digit_char (n mod 10)]"
proof -
  assume n: "n < 100"
  show ?thesis
  proof (cases "n < 10")
    case True
    then show ?thesis by (simp add: pad2_def str_nat.simps [of n] digit_char_def)
  next
    case False
    with n have "n div 10 < 10" by simp
    with False show ?thesis
      by (simp add: pad2_def str_nat.simps [of n] str_nat.simps [of "n div 10"])
  qed
qed

lemma digits_val_pad2: "n < 100 \<Longrightarrow> digits_val acc (pad2 n) = Some (100 * acc + n)"
proof -
  assume n: "n < 100"
  then have "n div 10 < 10" "n mod 10 < 10" by simp_all
  then show ?thesis using n
    by (simp add: pad2_eq digit_val_digit_char)
qed

lemma pad2_no_underscore: "n < 100 \<Longrightarrow> CHR ''_'' \<notin> set (pad2 n)"
proof -
  assume n: "n < 100"
  then have "n div 10 < 10" "n mod 10 < 10" by simp_all
  then have "digit_char (n div 10) \<in> set ''0123456789''" "digit_char (n mod 10) \<in> set ''0123456789''"
    by (simp_all only: digit_char_in)
  then show ?thesis using n by (auto simp: pad2_eq)
qed

lemma str_nat_no_underscore: "CHR ''_'' \<notin> set (str_nat n)"
  using str_nat_digits [of n] by auto

lemma test_id_start_init:
  assumes "valid_clock now"
  shows "test_id_start (init_runner dir now catalog) = Inr (time_of_day now)"
proof -
  from assms have h: "hour now < 100" and m: "minute now < 100" and s: "second now < 100"
    by (simp_all add: valid_clock_def)
  let ?a = "str_nat (year now) @ pad2 (month now) @ pad2 (day now)"
  let ?b = "pad2 (hour now) @ pad2 (minute now) @ pad2 (second now)"
  have ts: "timestamp (init_runner dir now catalog) = ?a @ CHR ''_'' # ?b"
    by (simp add: init_runner_def strftime_def)
  have na: "CHR ''_'' \<notin> set ?b"
    using h m s by (simp add: pad2_no_underscore)
  have "CHR ''_'' \<notin> set (pad2 (month now))"
    using str_nat_no_underscore [of "month now"] by (simp add: pad2_def)
  moreover have "CHR ''_'' \<notin> set (pad2 (day now))"
    using str_nat_no_underscore [of "day now"] by (simp add: pad2_def)
  ultimately have nb: "CHR ''_'' \<notin> set ?a"
    using str_nat_no_underscore [of "year now"] by simp
  have sp: "split_on CHR ''_'' (timestamp (init_runner dir now catalog)) = [?a, ?b]"
    unfolding ts using nb na by (rule split_on_once)
  have ne: "?b \<noteq> []" using h by (simp add: pad2_eq)
  have "digits_val 0 ?b = Some (hour now * 10000 + minute now * 100 + second now)"
    using h m s by (simp add: digits_val_append digits_val_pad2)
  with ne have "py_int ?b = Inr (time_of_day now)"
    by (simp add: py_int_def time_of_day_def)
  with sp show ?thesis by (simp add: test_id_start_def)
qed

subsection \<open>The pool yields every future once\<close>

lemma mset_drain: "length xs \<le> n \<Longrightarrow> mset (drain n pick xs) = mset xs"
proof (induction n arbitrary: xs)
  case 0
  then show ?case by simp
next
  case (Suc n)
  show ?case
  proof (cases "xs = []")
    case True
    then show ?thesis by simp
  next
    case False
    let ?i = "pick (length xs) mod length xs"
    let ?rest = "take ?i xs @ drop (Suc ?i) xs"
    from False have i: "?i < length xs" by simp
    then have split: "xs = take ?i xs @ xs ! ?i # drop (Suc ?i) xs"
      by (rule id_take_nth_drop)
    from i Suc.prems have "length ?rest \<le> n" by simp
    then have "mset (drain n pick ?rest) = mset ?rest" by (rule Suc.IH)
    moreover have "mset xs = add_mset (xs ! ?i) (mset ?rest)"
      by (subst split) simp
    ultimately show ?thesis using False by (simp add: Let_def)
  qed
qed

lemma mset_as_completed: "mset (as_completed pick fs) = mset fs"
  by (simp add: as_completed_def mset_drain)

lemma length_filter_as_completed:
  "length (filter P (as_completed pick fs)) = length (filter P fs)"
proof -
  have "mset (filter P (as_completed pick fs)) = mset (filter P fs)"
    by (simp add: mset_as_completed)
  then show ?thesis by (metis size_mset)
qed

lemma collect_results_counts:
  "collect_results fs (s, f, out) = (s', f', out') \<Longrightarrow>
     s' = s + int (length (filter (\<lambda>x. snd x = Returned True) fs)) \<and>
     f' = f + int (length (filter (\<lambda>x. snd x \<noteq> Returned True) fs))"
proof (induction fs arbitrary: s f out)
  case Nil
  then show ?case by simp
next
  case (Cons x fs)
  obtain t res where x: "x = (t, res)" by (cases x)
  show ?case
  proof (cases res)
    case (Returned success)
    with Cons.prems x Cons.IH [of "s + 1" f out] Cons.IH [of s "f + 1" out]
    show ?thesis by (cases success) auto
  next
    case (Raised exc)
    with Cons.prems x Cons.IH [of s "f + 1" "out @ [''A test generated an exception: '' @ exc]"]
    show ?thesis by auto
  qed
qed

lemma length_filter_submit:
  "length (filter (\<lambda>x. P (snd x)) (map (submit env) ts)) =
   length (filter (\<lambda>t. P (future_result env t)) ts)"
  by (induction ts) (simp_all add: submit_def)

lemma pool_successes:
  "fst (collect_results (as_completed pick (map (submit env) ts)) (0, 0, out)) =
     int (length (filter (\<lambda>t. future_result env t = Returned True) ts))"
proof -
  obtain s' f' out' where
    c: "collect_results (as_completed pick (map (submit env) ts)) (0, 0, out) = (s', f', out')"
    by (metis prod_cases3)
  have "length (filter (\<lambda>x. snd x = Returned True) (as_completed pick (map (submit env) ts))) =
        length (filter (\<lambda>t. future_result env t = Returned True) ts)"
    by (simp only: length_filter_as_completed length_filter_submit [where P = "\<lambda>y. y = Returned True"])
  with collect_results_counts [OF c] c show ?thesis by simp
qed

lemma pool_failures:
  "fst (snd (collect_results (as_completed pick (map (submit env) ts)) (0, 0, out))) =
     int (length (filter (\<lambda>t. future_result env t \<noteq> Returned True) ts))"
proof -
  obtain s' f' out' where
    c: "collect_results (as_completed pick (map (submit env) ts)) (0, 0, out) = (s', f', out')"
    by (metis prod_cases3)
  have "length (filter (\<lambda>x. snd x \<noteq> Returned True) (as_completed pick (map (submit env) ts))) =
        length (filter (\<lambda>t. future_result env t \<noteq> Returned True) ts)"
    by (simp only: length_filter_as_completed length_filter_submit [where P = "\<lambda>y. y \<noteq> Returned True"])
  with collect_results_counts [OF c] c show ?thesis by simp
qed

lemma run_all_tests_with_result:
  assumes "test_id_start r = Inr b" and "0 < pool_size env mw"
  shows "snd (run_all_tests_with lb env r mw cs ss ps) =
     Inr \<lparr>submitted =
            map (build (generate_test_command r))
              (seeded b (matrix_cells (scenarios r) (categories_to_run r cs)
                 (strategies_to_test r ss) (protocols_to_test r ps))),
          successful_runs =
            int (length (filter (\<lambda>t. future_result env t = Returned True)
              (map (build (generate_test_command r))
                (seeded b (matrix_cells (scenarios r) (categories_to_run r cs)
                   (strategies_to_test r ss) (protocols_to_test r ps)))))),
          failed_runs =
            int (length (filter (\<lambda>t. future_result env t \<noteq> Returned True)
              (map (build (generate_test_command r))
                (seeded b (matrix_cells (scenarios r) (categories_to_run r cs)
                   (strategies_to_test r ss) (protocols_to_test r ps))))))\<rparr>"
  using assms
  unfolding run_all_tests_with_def Let_def
  by (simp add: category_loop_eq split_beta pool_successes pool_failures
        del: map_map filter_map)

subsection \<open>The cells of the matrix\<close>

lemma distinct_row: "distinct ps \<Longrightarrow> distinct (map (\<lambda>p. (c, t, s, p)) ps)"
  by (simp add: distinct_map inj_on_def)

lemma set_matrix_cells:
  "set (matrix_cells catalog cs ss ps) =
     {(c, t, s, p). c \<in> set cs \<and> t \<in> set (scenarios_for catalog c) \<and> s \<in> set ss \<and> p \<in> set ps}"
  by (auto simp: matrix_cells_def)

lemma distinct_matrix_cells:
  assumes "distinct cs" "distinct ss" "distinct ps"
    and "\<And>c. c \<in> set cs \<Longrightarrow> distinct (scenarios_for catalog c)"
  shows "distinct (matrix_cells catalog cs ss ps)"
proof -
  have l2: "distinct (concat (map (\<lambda>s. map (\<lambda>p. (c, t, s, p)) ps) ss'))" if "distinct ss'" for c t ss'
    using that assms(3) by (induction ss') (auto simp: distinct_map inj_on_def)
  have l3: "distinct (concat (map (\<lambda>t. concat (map (\<lambda>s. map (\<lambda>p. (c, t, s, p)) ps) ss)) ts))"
    if "distinct ts" for c ts
    using that l2 [OF assms(2)] by (induction ts) auto
  have "distinct (matrix_cells catalog cs' ss ps)" if "distinct cs'" "set cs' \<subseteq> set cs" for cs'
    using that
  proof (induction cs')
    case Nil
    then show ?case by (simp add: matrix_cells_def)
  next
    case (Cons c cs')
    then have "distinct (scenarios_for catalog c)" using assms(4) by simp
    then have a: "distinct (concat (map (\<lambda>t. concat (map (\<lambda>s. map (\<lambda>p. (c, t, s, p)) ps) ss))
        (scenarios_for catalog c)))" by (rule l3)
    from Cons have b: "distinct (matrix_cells catalog cs' ss ps)" by simp
    from Cons.prems have "c \<notin> set cs'" by simp
    then have "\<And>x. x \<in> set (matrix_cells catalog cs' ss ps) \<Longrightarrow> fst x \<noteq> c"
      by (auto simp: set_matrix_cells)
    with a b show ?case
      by (fastforce simp: matrix_cells_def)
  qed
  with assms(1) show ?thesis by simp
qed

subsection \<open>Invocations and seeds of a run\<close>

lemma all_tests_to_run_eq:"test_id_start r = Inr b \<Longrightarrow>
   all_tests_to_run r cs ss ps =
     Inr (map (build (generate_test_command r))
            (seeded b (matrix_cells (scenarios r) (categories_to_run r cs)
               (strategies_to_test r ss) (protocols_to_test r ps))))"
  by (simp add: all_tests_to_run_def expand_matrix_def category_loop_eq)

lemma generated_calls_eq:
  "test_id_start r = Inr b \<Longrightarrow>
   generated_calls r cs ss ps =
     Inr (map (build record_call)
            (seeded b (matrix_cells (scenarios r) (categories_to_run r cs)
               (strategies_to_test r ss) (protocols_to_test r ps))))"
  by (simp add: generated_calls_def expand_matrix_def category_loop_eq)

lemma call_of_record_call: "call_of r (build record_call x) = build (generate_test_command r) x"
  by (cases x) (auto simp: call_of_def build_def record_call_def)

lemma seed_of_record_call: "seed_of (build record_call x) = snd x"
  by (cases x) (auto simp: seed_of_def build_def record_call_def)

lemma assigned_seeds_eq:
  "test_id_start r = Inr b \<Longrightarrow>
   assigned_seeds r cs ss ps = Inr (seed_range b (matrix_size r cs ss ps))"
  by (simp add: assigned_seeds_def generated_calls_eq seed_of_record_call seed_range_def
        matrix_size_def map_snd_seeded [symmetric] o_def)

lemma set_seed_range: "set (seed_range b n) = {b + 1 .. b + int n}"
proof
  show "set (seed_range b n) \<subseteq> {b + 1 .. b + int n}" by (auto simp: seed_range_def)
  show "{b + 1 .. b + int n} \<subseteq> set (seed_range b n)"
  proof
    fix x assume "x \<in> {b + 1 .. b + int n}"
    then have i: "nat (x - b - 1) < n" and e: "x = b + 1 + int (nat (x - b - 1))" by auto
    from i have m: "nat (x - b - 1) \<in> set [0..<n]" by simp
    from e m show "x \<in> set (seed_range b n)"
      unfolding seed_range_def set_map by (rule image_eqI)
  qed
qed

lemma seed_ranges_disjoint:
  "set (seed_range b1 n1) \<inter> set (seed_range b2 n2) = {} \<longleftrightarrow>
     n1 = 0 \<or> n2 = 0 \<or> b1 + int n1 \<le> b2 \<or> b2 + int n2 \<le> b1"
  by (auto simp: set_seed_range Int_atLeastAtMost)

lemma distinct_seed_range: "distinct (seed_range b n)"
  by (simp add: seed_range_def distinct_map inj_on_def)

lemma sorted_seed_range: "sorted_wrt (<) (seed_range b n)"
  by (simp add: seed_range_def sorted_wrt_map sorted_wrt_iff_nth_less)

subsection \<open>Facts about the concrete runs\<close>

lemma valid_example_clock: "valid_clock example_clock"
  by (simp add: valid_clock_def example_clock_def)

lemma example_runner_start: "test_id_start example_runner = Inr 72245"
  using test_id_start_init [OF valid_example_clock, of cwd define_test_scenarios]
  by (simp add: example_runner_def MLOSimulationRunner_def time_of_day_def example_clock_def)

lemma valid_next_second_clock: "valid_clock next_second_clock"
  by (simp add: valid_clock_def next_second_clock_def)

lemma next_second_runner_start: "test_id_start next_second_runner = Inr 72246"
  using test_id_start_init [OF valid_next_second_clock, of cwd define_test_scenarios]
  by (simp add: next_second_runner_def MLOSimulationRunner_def time_of_day_def next_second_clock_def)

lemma example_pool_size: "0 < pool_size example_pool None"
  by (simp add: pool_size_def example_pool_def)

lemma basic_catalog_lookup:
  "scenarios_for define_test_scenarios ''baseline'' = baseline_tests"
  "scenarios_for define_test_scenarios ''interference'' = interference_tests"
  "scenarios_for define_test_scenarios ''failure_recovery'' = failure_recovery_tests"
  "scenarios_for define_test_scenarios ''mobility'' = mobility_tests"
  "scenarios_for define_test_scenarios ''scalability'' = scalability_tests"
  "scenarios_for define_test_scenarios ''critical_performance'' = critical_performance_tests"
  "scenarios_for define_test_scenarios ''network_configuration'' = network_configuration_tests"
  "scenarios_for define_test_scenarios ''protocol_variations'' = protocol_variations_tests"
  by (simp_all add: scenarios_for_def define_test_scenarios_def)

lemma basic_catalog_sizes:
  "length baseline_tests = 12"
  "length interference_tests = 8"
  "length failure_recovery_tests = 1"
  "length mobility_tests = 12"
  "length scalability_tests = 13"
  "length critical_performance_tests = 8"
  "length network_configuration_tests = 3"
  "length protocol_variations_tests = 3"
  by (simp_all add: baseline_tests_def interference_tests_def failure_recovery_tests_def
      mobility_tests_def scalability_tests_def critical_performance_tests_def
      network_configuration_tests_def protocol_variations_tests_def)

lemma example_runner_fields:
  "scenarios example_runner = define_test_scenarios"
  "strategies example_runner = [''RoundRobin'', ''Greedy'', ''Reliability'', ''SLA-MLO'']"
  "protocols example_runner = [''UDP'', ''TCP'', ''Mixed'']"
  "scenarios next_second_runner = define_test_scenarios"
  "strategies next_second_runner = [''RoundRobin'', ''Greedy'', ''Reliability'', ''SLA-MLO'']"
  "protocols next_second_runner = [''UDP'', ''TCP'', ''Mixed'']"
  by (simp_all add: example_runner_def next_second_runner_def MLOSimulationRunner_def init_runner_def)

lemma example_failure_recovery_run:
  "snd (run_all_tests example_pool example_runner None (Some [''failure_recovery''])
          (Some [''Greedy'']) None) =
   Inr \<lparr>submitted =
          map (build (generate_test_command example_runner))
            [((''failure_recovery'', hd failure_recovery_tests, ''Greedy'', ''UDP''), 72246),
             ((''failure_recovery'', hd failure_recovery_tests, ''Greedy'', ''TCP''), 72247),
             ((''failure_recovery'', hd failure_recovery_tests, ''Greedy'', ''Mixed''), 72248)],
        successful_runs = 1, failed_runs = 2\<rparr>"
proof -
  have cells: "matrix_cells (scenarios example_runner)
          (categories_to_run example_runner (Some [''failure_recovery'']))
          (strategies_to_test example_runner (Some [''Greedy'']))
          (protocols_to_test example_runner None) =
        [(''failure_recovery'', hd failure_recovery_tests, ''Greedy'', ''UDP''),
         (''failure_recovery'', hd failure_recovery_tests, ''Greedy'', ''TCP''),
         (''failure_recovery'', hd failure_recovery_tests, ''Greedy'', ''Mixed'')]"
    by (simp add: matrix_cells_def categories_to_run_def strategies_to_test_def
        protocols_to_test_def or_else_def example_runner_fields basic_catalog_lookup
        failure_recovery_tests_def)
  have names: "map test_name_of (map (build (generate_test_command example_runner))
            [((''failure_recovery'', hd failure_recovery_tests, ''Greedy'', ''UDP''), 72246),
             ((''failure_recovery'', hd failure_recovery_tests, ''Greedy'', ''TCP''), 72247),
             ((''failure_recovery'', hd failure_recovery_tests, ''Greedy'', ''Mixed''), 72248)]) =
        [''failure_recovery_random_failures_mixed_tid_Greedy_UDP_72246'',
         ''failure_recovery_random_failures_mixed_tid_Greedy_TCP_72247'',
         ''failure_recovery_random_failures_mixed_tid_Greedy_Mixed_72248'']"
    by (simp add: build_def generate_test_command_def test_name_of_def Let_def
        failure_recovery_tests_def str_int_def str_nat.simps digit_char_def)
  show ?thesis
    unfolding run_all_tests_def
    apply (subst run_all_tests_with_result [OF example_runner_start example_pool_size])
    apply (simp only: cells seeded.simps)
    using names
    apply (simp add: example_pool_def)
    done
qed

subsection \<open>One invocation\<close>

lemma log_content_shape:
  "log_content lb (command, test_name, descr) stamp elapsed returncode out err =
     log_artifact_shape (details_header lb) test_name descr stamp (format_f 2 elapsed)
       returncode command out err"
  by (simp add: log_content_def log_artifact_shape_def)

lemma str_nat_no_dot: "CHR ''.'' \<notin> set (str_nat n)"
  using str_nat_digits [of n] by auto

lemma two_decimals_format_f: "two_decimals (format_f 2 x)"
proof -
  define h where "h = nat (round_half_even (\<bar>x\<bar> * 10 ^ 2))"
  have u: "[0..<2] = [0, Suc 0]" by (simp add: upt_rec)
  have d1: "digit_char (h div 10 mod 10) \<in> set ''0123456789''"
    by (simp only: digit_char_in pos_mod_bound zero_less_numeral)
  have d2: "digit_char (h mod 10) \<in> set ''0123456789''"
    by (simp only: digit_char_in pos_mod_bound zero_less_numeral)
  have f: "format_f 2 x = (if x < 0 then ''-'' else []) @ str_nat (h div 100) @
       [CHR ''.'', digit_char (h div 10 mod 10), digit_char (h mod 10)]"
    by (simp add: format_f_def Let_def h_def u)
  show ?thesis
    unfolding f two_decimals_def using d1 d2 str_nat_no_dot [of "h div 100"] str_nat_not_Nil [of "h div 100"]
    by (simp del: set_simps)
qed

lemma run_single_test_completed:
  assumes "proc env = Completed rc out err" and "log_fault env = None"
    and "console_fault env = None"
  shows "fst (run_single_test_with lb r (command, test_name, descr) env fs) = Returned (rc = 0)"
    and "snd (snd (run_single_test_with lb r (command, test_name, descr) env fs)) =
           fs(path_div (log_dir r) (log_file_name r test_name) \<mapsto>
                log_artifact_shape (details_header lb) test_name descr (now_isoformat env)
                  (format_f 2 (execution_time env)) rc command out err)"
  using assms
  by (simp_all add: run_single_test_with_def write_file_def Let_def log_content_shape
      del: fun_upd_apply)

lemma run_single_test_fault:
  assumes "proc env = Launch_fault e" and "handler_fault env = None"
    and "console_fault env = None"
  shows "run_single_test_with lb r (command, test_name, descr) env fs =
     (Returned False,
      [emoji_rocket @ starting_label lb @ test_name,
       emoji_cross_mark @ '' CRITICAL ERROR: '' @ test_name @ ''. See log for details: '' @
         path_str (path_div (log_dir r) (log_file_name r test_name))],
      fs(path_div (log_dir r) (log_file_name r test_name) \<mapsto>
           (case fs (path_div (log_dir r) (log_file_name r test_name)) of
              None \<Rightarrow> [] | Some old \<Rightarrow> old) @
           nl @ ''--- PYTHON EXCEPTION ---'' @ nl @ e))"
  using assms
  by (simp add: run_single_test_with_def except_clause_def write_file_def Let_def
      del: fun_upd_apply)

lemma example_test_eq:
  "example_test =
    (''./ns3 run 'mlo_simulator --strategy=Greedy --protocol=UDP --seed=72246 --csvFile=scratch/output_files_csv/mlo_unified_results.csv --scenario=failure_recovery_random_failures_mixed_tid --runNumber=72246 --verbose=1 --nWifi=20 --tidCount=24 --criticalTids=8 --emergencyTids=8 --simtime=40 --linkFailureRate=0.1 --enableFailureRecovery=true'' @ [CHR 0x27],
     ''failure_recovery_random_failures_mixed_tid_Greedy_UDP_72246'',
     ''Random failures (10% chance per second) - Mixed TID'')"
  by (simp add: example_test_def generate_test_command_def Let_def failure_recovery_tests_def
      str_int_def str_nat.simps digit_char_def example_runner_def MLOSimulationRunner_def
      init_runner_def path_str_def path_div_def cwd_def)

lemma format_example: "format_f 2 (5 / 4) = ''1.25''"
  by (simp add: format_f_def round_half_even_def Let_def upt_rec str_nat.simps digit_char_def)

lemma example_log_path:
  "path_div (log_dir example_runner) (log_file_name example_runner (test_name_of example_test)) =
     \<lparr>rooted = False,
      parts = [''scratch'', ''logs'',
               ''failure_recovery_random_failures_mixed_tid_Greedy_UDP_72246_20261104_072245.log'']\<rparr>"
  by (simp add: example_test_eq test_name_of_def log_file_name_def path_div_def cwd_def
      example_runner_def MLOSimulationRunner_def init_runner_def strftime_def example_clock_def
      pad2_def str_nat.simps digit_char_def)

lemma split_on_head: "c \<notin> set x \<Longrightarrow> split_on c (x @ c # rest) = x # split_on c rest"
  by (induction x) auto

lemma split_on_join_nth5:
  assumes "CHR 0x0A \<notin> set x0" "CHR 0x0A \<notin> set x1" "CHR 0x0A \<notin> set x2"
    "CHR 0x0A \<notin> set x3" "CHR 0x0A \<notin> set x4" "CHR 0x0A \<notin> set x5"
  shows "split_on (CHR 0x0A) (join nl (x0 # x1 # x2 # x3 # x4 # x5 # x6 # xs)) ! 5 = x5"
  using assms by (simp add: nl_def split_on_head)

lemma test_info_triple: "(command_of t, test_name_of t, description_of t) = t"
  by (cases t) (simp add: command_of_def test_name_of_def description_of_def)

lemma example_test_parts:
  "test_name_of example_test = ''failure_recovery_random_failures_mixed_tid_Greedy_UDP_72246''"
  "description_of example_test = ''Random failures (10% chance per second) - Mixed TID''"
  by (simp_all add: example_test_eq test_name_of_def description_of_def)

subsection \<open>The console of a run\<close>





subsection \<open>Faults, failures in the loop and the empty batch\<close>

lemma example_test_split:
  "example_test = (command_of example_test, test_name_of example_test, description_of example_test)"
  by (simp add: test_info_triple)

lemma undecodable_output_run:
  "fst (run_single_test_with lb example_runner example_test undecodable_env Map.empty) = Returned False"
  "snd (snd (run_single_test_with lb example_runner example_test undecodable_env Map.empty))
     (path_div (log_dir example_runner)
        (log_file_name example_runner (test_name_of example_test))) =
     Some (nl @ ''--- PYTHON EXCEPTION ---'' @ nl @
           ''utf-8 codec cannot decode byte 0xff in position 0: invalid start byte'')"
  by (subst example_test_split,
      simp add: run_single_test_with_def except_clause_def write_file_def undecodable_env_def
        Let_def)+

lemma full_device_run:
  "fst (run_single_test_with lb example_runner example_test full_device_env Map.empty) =
     Raised ''[Errno 28] No space left on device''"
  by (subst example_test_split,
      simp add: run_single_test_with_def except_clause_def write_file_def full_device_env_def
        Let_def)

lemma fault_full_device_run:
  "fst (run_single_test_with lb example_runner example_test fault_full_device_env Map.empty) =
     Raised ''[Errno 28] No space left on device''"
  by (subst example_test_split,
      simp add: run_single_test_with_def except_clause_def write_file_def
        fault_full_device_env_def Let_def)




subsection \<open>The command string\<close>

text \<open>
  C7, as the specification states it: the command is the entry point, the seven flags and
  then the parameter string of the scenario, which ends it. The command that
  \<^verbatim>\<open>generate_test_command\<close> builds for the first invocation of the example run is not that
  text: it ends in a single quote, the parameter string ends in the letter e.
\<close>

theorem closing_quote_counterexample:
  "command_of (generate_test_command example_runner ''failure_recovery''
                 (hd failure_recovery_tests) ''Greedy'' ''UDP'' 72246) \<noteq>
     spawned_command_shape ''./ns3 run 'mlo_simulator'' ''Greedy'' ''UDP'' ''72246''
       ''scratch/output_files_csv/mlo_unified_results.csv''
       ''failure_recovery_random_failures_mixed_tid''
       ''--nWifi=20 --tidCount=24 --criticalTids=8 --emergencyTids=8 --simtime=40 --linkFailureRate=0.1 --enableFailureRecovery=true'' \<and>
   params (hd failure_recovery_tests) =
     ''--nWifi=20 --tidCount=24 --criticalTids=8 --emergencyTids=8 --simtime=40 --linkFailureRate=0.1 --enableFailureRecovery=true'' \<and>
   last (command_of (generate_test_command example_runner ''failure_recovery''
                       (hd failure_recovery_tests) ''Greedy'' ''UDP'' 72246)) = CHR 0x27 \<and>
   last (params (hd failure_recovery_tests)) = CHR ''e''"
proof -
  have c: "command_of (generate_test_command example_runner ''failure_recovery''
                 (hd failure_recovery_tests) ''Greedy'' ''UDP'' 72246) =
    ''./ns3 run 'mlo_simulator --strategy=Greedy --protocol=UDP --seed=72246 --csvFile=scratch/output_files_csv/mlo_unified_results.csv --scenario=failure_recovery_random_failures_mixed_tid --runNumber=72246 --verbose=1 --nWifi=20 --tidCount=24 --criticalTids=8 --emergencyTids=8 --simtime=40 --linkFailureRate=0.1 --enableFailureRecovery=true'' @ [CHR 0x27]"
    using example_test_eq by (simp add: example_test_def command_of_def)
  have p: "params (hd failure_recovery_tests) =
     ''--nWifi=20 --tidCount=24 --criticalTids=8 --emergencyTids=8 --simtime=40 --linkFailureRate=0.1 --enableFailureRecovery=true''"
    by (simp add: failure_recovery_tests_def)
  show ?thesis
    unfolding c p by (simp add: spawned_command_shape_def)
qed

text \<open>
  C7, amended. For every category, scenario, strategy, protocol and seed, the command built
  by \<^verbatim>\<open>generate_test_command\<close> is the entry point \<^verbatim>\<open>./ns3 run 'mlo_simulator\<close> followed by
  the flags strategy, protocol, seed, csvFile, scenario (category, underscore, scenario
  name), runNumber and verbose, in this order and separated by single blanks, where the
  run number is the same text as the seed, followed by the scenario's parameter string
  unchanged, followed by one single quote, which closes the quote that the entry point
  opens.
\<close>

theorem generate_test_command_shape:
  "command_of (generate_test_command r c t s p seed) =
     spawned_command_shape ''./ns3 run 'mlo_simulator'' s p (str_int seed)
       (path_str (output_csv_path r)) (c @ ''_'' @ name t) (params t) @ [CHR 0x27]"
  by (simp add: generate_test_command_def command_of_def spawned_command_shape_def Let_def)

subsection \<open>The invocation matrix\<close>

text \<open>
  C1, as the specification states it: for every selection there is exactly one invocation
  for each cell (category, scenario, strategy, protocol), without duplicates. A selection
  that names the category failure recovery twice is expanded twice: the same cell is
  passed to \<^verbatim>\<open>generate_test_command\<close> with seed 72246 and again with seed 72247.
\<close>

theorem repeated_category_counterexample:
  "generated_calls example_runner (Some [''failure_recovery'', ''failure_recovery''])
     (Some [''Greedy'']) (Some [''UDP'']) =
   Inr [(''failure_recovery'', hd failure_recovery_tests, ''Greedy'', ''UDP'', 72246),
        (''failure_recovery'', hd failure_recovery_tests, ''Greedy'', ''UDP'', 72247)]"
  by (simp add: generated_calls_eq [OF example_runner_start] matrix_cells_def
      categories_to_run_def strategies_to_test_def protocols_to_test_def or_else_def
      example_runner_fields basic_catalog_lookup failure_recovery_tests_def build_def
      record_call_def)

text \<open>
  C1, amended. A call of \<^verbatim>\<open>run_all_tests\<close> (of either class; the labels \<open>lb\<close> tell them
  apart) with a readable timestamp and a positive pool size submits one invocation for
  each element of the list of cells of the selection, in the nested order category,
  scenario in catalog order, strategy, protocol: the list submitted is the list of cells,
  each built by \<^verbatim>\<open>generate_test_command\<close> with the next value of the counter. The
  selection is the one after the defaults are filled in, and nothing is removed from it: a
  category, strategy or protocol that it names several times contributes its cells once
  for each occurrence. The cells listed are exactly the combinations of a selected
  category, a scenario of that category, a selected strategy and a selected protocol, so
  none is omitted; when no category, strategy or protocol is named twice and no category
  lists a scenario twice, no cell is listed twice, so there is exactly one invocation for
  each cell. No invocation occurs twice in any case, since the seeds differ. The number of
  invocations is the sum over the selected categories of the number of scenarios of the
  category times the number of selected strategies times the number of selected protocols;
  category baseline with two strategies and two protocols gives 48 invocations.
\<close>

theorem run_all_tests_cartesian_product:
  assumes "test_id_start r = Inr b" and "0 < pool_size env max_workers"
  shows "\<exists>sm. snd (run_all_tests_with lb env r max_workers categories strategies_sel protocols_sel)
            = Inr sm \<and>
         submitted sm =
           map (build (generate_test_command r))
             (seeded b (matrix_cells (scenarios r) (categories_to_run r categories)
                (strategies_to_test r strategies_sel) (protocols_to_test r protocols_sel))) \<and>
         set (matrix_cells (scenarios r) (categories_to_run r categories)
                (strategies_to_test r strategies_sel) (protocols_to_test r protocols_sel)) =
           {(c, t, s, p).
              c \<in> set (categories_to_run r categories) \<and>
              t \<in> set (scenarios_for (scenarios r) c) \<and>
              s \<in> set (strategies_to_test r strategies_sel) \<and>
              p \<in> set (protocols_to_test r protocols_sel)} \<and>
         (distinct (categories_to_run r categories) \<and>
          distinct (strategies_to_test r strategies_sel) \<and>
          distinct (protocols_to_test r protocols_sel) \<and>
          list_all (\<lambda>c. distinct (scenarios_for (scenarios r) c))
            (categories_to_run r categories) \<longrightarrow>
          distinct (matrix_cells (scenarios r) (categories_to_run r categories)
                (strategies_to_test r strategies_sel) (protocols_to_test r protocols_sel))) \<and>
         distinct (submitted sm) \<and>
         length (submitted sm) =
           (\<Sum>c\<leftarrow>categories_to_run r categories.
              length (scenarios_for (scenarios r) c) *
              length (strategies_to_test r strategies_sel) *
              length (protocols_to_test r protocols_sel))"
proof -
  let ?cells = "matrix_cells (scenarios r) (categories_to_run r categories)
                (strategies_to_test r strategies_sel) (protocols_to_test r protocols_sel)"
  let ?ts = "map (build (generate_test_command r)) (seeded b ?cells)"
  have "distinct (map test_name_of ?ts)"
    using distinct_test_names [of r b ?cells] by (simp add: o_def)
  then have d: "distinct ?ts" using distinct_map by blast
  have l: "length ?ts = (\<Sum>c\<leftarrow>categories_to_run r categories.
              length (scenarios_for (scenarios r) c) *
              length (strategies_to_test r strategies_sel) *
              length (protocols_to_test r protocols_sel))"
    by (simp add: length_seeded length_matrix_cells)
  have m: "set ?cells =
           {(c, t, s, p).
              c \<in> set (categories_to_run r categories) \<and>
              t \<in> set (scenarios_for (scenarios r) c) \<and>
              s \<in> set (strategies_to_test r strategies_sel) \<and>
              p \<in> set (protocols_to_test r protocols_sel)}"
    by (rule set_matrix_cells)
  have c: "distinct ?cells"
    if "distinct (categories_to_run r categories) \<and>
        distinct (strategies_to_test r strategies_sel) \<and>
        distinct (protocols_to_test r protocols_sel) \<and>
        list_all (\<lambda>c. distinct (scenarios_for (scenarios r) c))
          (categories_to_run r categories)"
    using that by (intro distinct_matrix_cells) (simp_all add: list_all_iff)
  let ?sm = "\<lparr>submitted = ?ts,
     successful_runs = int (length (filter (\<lambda>t. future_result env t = Returned True) ?ts)),
     failed_runs = int (length (filter (\<lambda>t. future_result env t \<noteq> Returned True) ?ts))\<rparr>"
  have r: "snd (run_all_tests_with lb env r max_workers categories strategies_sel protocols_sel)
            = Inr ?sm"
    by (rule run_all_tests_with_result [OF assms])
  have s: "submitted ?sm = ?ts" by simp
  have d': "distinct (submitted ?sm)" using d by simp
  have l': "length (submitted ?sm) = (\<Sum>c\<leftarrow>categories_to_run r categories.
              length (scenarios_for (scenarios r) c) *
              length (strategies_to_test r strategies_sel) *
              length (protocols_to_test r protocols_sel))"
    using l by simp
  have c': "distinct (categories_to_run r categories) \<and>
        distinct (strategies_to_test r strategies_sel) \<and>
        distinct (protocols_to_test r protocols_sel) \<and>
        list_all (\<lambda>c. distinct (scenarios_for (scenarios r) c))
          (categories_to_run r categories) \<longrightarrow> distinct ?cells"
    using c by blast
  from r s m c' d' l' show ?thesis by blast
qed

theorem run_all_tests_cartesian_product_witness:
  "test_id_start example_runner = Inr 72245 \<and> 0 < pool_size example_pool None \<and>
   distinct [''baseline''] \<and> distinct [''RoundRobin'', ''Greedy''] \<and>
   distinct [''UDP'', ''TCP''] \<and>
   distinct (scenarios_for (scenarios example_runner) ''baseline'') \<and>
   (\<exists>sm. snd (run_all_tests example_pool example_runner None (Some [''baseline''])
              (Some [''RoundRobin'', ''Greedy'']) (Some [''UDP'', ''TCP''])) = Inr sm \<and>
         length (submitted sm) = 48 \<and> length (submitted sm) = 12 * 2 * 2 \<and>
         distinct (submitted sm)) \<and>
   distinct (matrix_cells (scenarios example_runner) [''baseline'']
               [''RoundRobin'', ''Greedy''] [''UDP'', ''TCP''])"
proof -
  have sel: "categories_to_run example_runner (Some [''baseline'']) = [''baseline'']"
    "strategies_to_test example_runner (Some [''RoundRobin'', ''Greedy'']) =
       [''RoundRobin'', ''Greedy'']"
    "protocols_to_test example_runner (Some [''UDP'', ''TCP'']) = [''UDP'', ''TCP'']"
    by (simp_all add: categories_to_run_def strategies_to_test_def protocols_to_test_def
        or_else_def)
  have b: "distinct (scenarios_for (scenarios example_runner) ''baseline'')"
    by (simp add: example_runner_fields basic_catalog_lookup baseline_tests_def)
  have n: "length (scenarios_for (scenarios example_runner) ''baseline'') = 12"
    by (simp add: example_runner_fields basic_catalog_lookup basic_catalog_sizes)
  from run_all_tests_cartesian_product [OF example_runner_start example_pool_size,
      of basic_labels "Some [''baseline'']" "Some [''RoundRobin'', ''Greedy'']"
         "Some [''UDP'', ''TCP'']", folded run_all_tests_def, unfolded sel]
    b n example_runner_start example_pool_size
  show ?thesis by auto
qed

subsection \<open>Run identifiers\<close>

text \<open>
  C3. Within one call of \<^verbatim>\<open>run_all_tests\<close>, hence with one timestamp, the test names of the
  invocations submitted are pairwise different, and so are the names and the paths of
  their log files.
\<close>

theorem run_ids_unique:
  assumes "test_id_start r = Inr b" and "0 < pool_size env max_workers"
  shows "\<exists>sm. snd (run_all_tests_with lb env r max_workers categories strategies_sel protocols_sel)
            = Inr sm \<and>
         distinct (map test_name_of (submitted sm)) \<and>
         distinct (map (\<lambda>t. log_file_name r (test_name_of t)) (submitted sm)) \<and>
         distinct (map (\<lambda>t. path_div (log_dir r) (log_file_name r (test_name_of t)))
                     (submitted sm))"
proof -
  let ?cells = "matrix_cells (scenarios r) (categories_to_run r categories)
                (strategies_to_test r strategies_sel) (protocols_to_test r protocols_sel)"
  let ?ts = "map (build (generate_test_command r)) (seeded b ?cells)"
  have n: "distinct (map test_name_of ?ts)"
    using distinct_test_names [of r b ?cells] by (simp add: o_def)
  have "inj (log_file_name r)" by (simp add: inj_def log_file_name_def)
  then have f: "distinct (map (log_file_name r) (map test_name_of ?ts))"
    using n by (simp only: distinct_map) (auto intro: inj_on_subset)
  have "x = y" if "path_div (log_dir r) x = path_div (log_dir r) y" for x y
    using arg_cong [OF that, of parts] by (simp add: path_div_def)
  then have "inj (path_div (log_dir r))" by (auto simp: inj_def)
  then have "distinct (map (path_div (log_dir r)) (map (log_file_name r) (map test_name_of ?ts)))"
    using f by (simp only: distinct_map) (auto intro: inj_on_subset)
  with n f run_all_tests_with_result [OF assms, of lb categories strategies_sel protocols_sel]
  show ?thesis by (simp add: o_def)
qed

theorem run_ids_unique_witness:
  "test_id_start example_runner = Inr 72245 \<and> 0 < pool_size example_pool None \<and>
   (\<exists>sm. snd (run_all_tests example_pool example_runner None (Some [''baseline''])
              (Some [''RoundRobin'', ''Greedy'']) (Some [''UDP'', ''TCP''])) = Inr sm \<and>
         distinct (map test_name_of (submitted sm)))"
  using run_ids_unique [OF example_runner_start example_pool_size,
      of basic_labels "Some [''baseline'']" "Some [''RoundRobin'', ''Greedy'']" "Some [''UDP'', ''TCP'']"]
    example_runner_start example_pool_size
  by (auto simp: run_all_tests_def)

subsection \<open>Counting the results\<close>

text \<open>
  C2. Whatever the futures give and in whatever order they complete, after the collection
  loop the number of successful runs plus the number of failed runs is the number of
  invocations submitted. The successful runs are the invocations whose future returned
  true; the failed runs are those whose future returned false plus those whose future
  raised, each counted once.
\<close>

theorem counts_add_up:
  assumes "test_id_start r = Inr b" and "0 < pool_size env max_workers"
  shows "\<exists>sm. snd (run_all_tests_with lb env r max_workers categories strategies_sel protocols_sel)
            = Inr sm \<and>
         successful_runs sm + failed_runs sm = int (length (submitted sm)) \<and>
         successful_runs sm =
           int (length (filter (\<lambda>t. future_result env t = Returned True) (submitted sm))) \<and>
         failed_runs sm =
           int (length (filter (\<lambda>t. future_result env t = Returned False) (submitted sm))) +
           int (length (filter (\<lambda>t. raised (future_result env t)) (submitted sm)))"
proof -
  have part: "length (filter (\<lambda>t. f t = Returned True) ts) +
              length (filter (\<lambda>t. f t \<noteq> Returned True) ts) = length ts"
    for f :: "test_info \<Rightarrow> future_outcome" and ts
    by (induction ts) simp_all
  have fails: "length (filter (\<lambda>t. f t \<noteq> Returned True) ts) =
               length (filter (\<lambda>t. f t = Returned False) ts) +
               length (filter (\<lambda>t. raised (f t)) ts)"
    for f :: "test_info \<Rightarrow> future_outcome" and ts
    by (induction ts) (auto simp: raised_def split: future_outcome.splits)
  let ?ts = "map (build (generate_test_command r))
             (seeded b (matrix_cells (scenarios r) (categories_to_run r categories)
                (strategies_to_test r strategies_sel) (protocols_to_test r protocols_sel)))"
  let ?ok = "length (filter (\<lambda>t. future_result env t = Returned True) ?ts)"
  let ?bad = "length (filter (\<lambda>t. future_result env t \<noteq> Returned True) ?ts)"
  let ?sm = "\<lparr>submitted = ?ts, successful_runs = int ?ok, failed_runs = int ?bad\<rparr>"
  have r: "snd (run_all_tests_with lb env r max_workers categories strategies_sel protocols_sel)
             = Inr ?sm"
    by (rule run_all_tests_with_result [OF assms])
  have "int ?ok + int ?bad = int (length ?ts)"
    using part [of "future_result env" ?ts] by (simp only: flip: of_nat_add)
  then have t: "successful_runs ?sm + failed_runs ?sm = int (length (submitted ?sm))"
    by (simp only: summary.simps)
  have "int ?bad = int (length (filter (\<lambda>t. future_result env t = Returned False) ?ts)) +
                   int (length (filter (\<lambda>t. raised (future_result env t)) ?ts))"
    using fails [of "future_result env" ?ts] by (simp only: flip: of_nat_add)
  then have f: "failed_runs ?sm =
           int (length (filter (\<lambda>t. future_result env t = Returned False) (submitted ?sm))) +
           int (length (filter (\<lambda>t. raised (future_result env t)) (submitted ?sm)))"
    by (simp only: summary.simps)
  have s: "successful_runs ?sm =
           int (length (filter (\<lambda>t. future_result env t = Returned True) (submitted ?sm)))"
    by (simp only: summary.simps)
  from r t s f show ?thesis by blast
qed

theorem counts_add_up_witness:
  "test_id_start example_runner = Inr 72245 \<and> 0 < pool_size example_pool None \<and>
   (\<exists>sm. snd (run_all_tests example_pool example_runner None (Some [''failure_recovery''])
              (Some [''Greedy'']) None) = Inr sm \<and>
         successful_runs sm = 1 \<and> failed_runs sm = 2 \<and>
         successful_runs sm + failed_runs sm = int (length (submitted sm)))"
  using counts_add_up [OF example_runner_start example_pool_size,
      of basic_labels "Some [''failure_recovery'']" "Some [''Greedy'']" None]
    example_failure_recovery_run example_runner_start example_pool_size
  by (auto simp: run_all_tests_def)

subsection \<open>Seeds\<close>

text \<open>
  C4, as the specification states it: two runs that start in different seconds never
  share a seed. This fails: the counter starts at the time of day only, so a run started
  at 07:22:45 and a run started one second later, each with three invocations, both use
  the seeds 72247 and 72248.
\<close>

theorem seeds_overlap_counterexample:
  "assigned_seeds example_runner (Some [''failure_recovery'']) (Some [''Greedy'']) None
     = Inr [72246, 72247, 72248] \<and>
   assigned_seeds next_second_runner (Some [''failure_recovery'']) (Some [''Greedy'']) None
     = Inr [72247, 72248, 72249] \<and>
   timestamp example_runner = ''20261104_072245'' \<and>
   timestamp next_second_runner = ''20261104_072246'' \<and>
   72247 \<in> set [72246, 72247, 72248 :: int] \<inter> set [72247, 72248, 72249]"
proof -
  have a: "assigned_seeds example_runner (Some [''failure_recovery'']) (Some [''Greedy'']) None
     = Inr [72246, 72247, 72248]"
    using assigned_seeds_eq [OF example_runner_start, of "Some [''failure_recovery'']" "Some [''Greedy'']" None]
    by (simp add: matrix_size_def length_matrix_cells categories_to_run_def strategies_to_test_def
       protocols_to_test_def or_else_def example_runner_fields basic_catalog_lookup basic_catalog_sizes
       seed_range_def upt_rec)
  have b: "assigned_seeds next_second_runner (Some [''failure_recovery'']) (Some [''Greedy'']) None
     = Inr [72247, 72248, 72249]"
    using assigned_seeds_eq [OF next_second_runner_start, of "Some [''failure_recovery'']" "Some [''Greedy'']" None]
    by (simp add: matrix_size_def length_matrix_cells categories_to_run_def strategies_to_test_def
       protocols_to_test_def or_else_def example_runner_fields basic_catalog_lookup basic_catalog_sizes
       seed_range_def upt_rec)
  have c: "timestamp example_runner = ''20261104_072245''"
    by (simp add: example_runner_def MLOSimulationRunner_def init_runner_def strftime_def
        example_clock_def pad2_def str_nat.simps digit_char_def)
  have d: "timestamp next_second_runner = ''20261104_072246''"
    by (simp add: next_second_runner_def MLOSimulationRunner_def init_runner_def strftime_def
        next_second_clock_def pad2_def str_nat.simps digit_char_def)
  from a b c d show ?thesis by simp
qed

text \<open>
  C4, amended. In a run created at a valid clock reading, the seeds assigned are the
  consecutive numbers that follow the time of day of the start read as the decimal number
  HHMMSS: the k-th invocation gets HHMMSS + k. They are the seeds with which the
  invocations submitted are built, they are pairwise different and strictly increasing.
  The seeds of two runs are disjoint exactly when one of the runs has no invocation or
  the range of one ends before the range of the other begins; starting in different
  seconds is not enough.
\<close>

theorem seeds_consecutive_from_time_of_day:
  assumes "valid_clock now1" and "valid_clock now2"
  shows
    "assigned_seeds (init_runner dir1 now1 cat1) c1 s1 p1 =
       Inr (seed_range (time_of_day now1)
              (matrix_size (init_runner dir1 now1 cat1) c1 s1 p1)) \<and>
     all_tests_to_run (init_runner dir1 now1 cat1) c1 s1 p1 =
       map_sum id (map (call_of (init_runner dir1 now1 cat1)))
         (generated_calls (init_runner dir1 now1 cat1) c1 s1 p1) \<and>
     distinct (seed_range (time_of_day now1)
                 (matrix_size (init_runner dir1 now1 cat1) c1 s1 p1)) \<and>
     sorted_wrt (<) (seed_range (time_of_day now1)
                 (matrix_size (init_runner dir1 now1 cat1) c1 s1 p1)) \<and>
     assigned_seeds (init_runner dir2 now2 cat2) c2 s2 p2 =
       Inr (seed_range (time_of_day now2)
              (matrix_size (init_runner dir2 now2 cat2) c2 s2 p2)) \<and>
     (set (seed_range (time_of_day now1) (matrix_size (init_runner dir1 now1 cat1) c1 s1 p1)) \<inter>
      set (seed_range (time_of_day now2) (matrix_size (init_runner dir2 now2 cat2) c2 s2 p2)) = {}
      \<longleftrightarrow>
        matrix_size (init_runner dir1 now1 cat1) c1 s1 p1 = 0 \<or>
        matrix_size (init_runner dir2 now2 cat2) c2 s2 p2 = 0 \<or>
        time_of_day now1 + int (matrix_size (init_runner dir1 now1 cat1) c1 s1 p1)
          \<le> time_of_day now2 \<or>
        time_of_day now2 + int (matrix_size (init_runner dir2 now2 cat2) c2 s2 p2)
          \<le> time_of_day now1)"
proof -
  let ?r1 = "init_runner dir1 now1 cat1"
  let ?r2 = "init_runner dir2 now2 cat2"
  have s1: "test_id_start ?r1 = Inr (time_of_day now1)"
    using assms(1) by (rule test_id_start_init)
  have s2: "test_id_start ?r2 = Inr (time_of_day now2)"
    using assms(2) by (rule test_id_start_init)
  have a: "all_tests_to_run ?r1 c1 s1 p1 =
       map_sum id (map (call_of ?r1)) (generated_calls ?r1 c1 s1 p1)"
    by (simp add: all_tests_to_run_eq [OF s1] generated_calls_eq [OF s1] o_def
        call_of_record_call)
  show ?thesis
    by (simp only: assigned_seeds_eq [OF s1] assigned_seeds_eq [OF s2] a
        distinct_seed_range sorted_seed_range seed_ranges_disjoint simp_thms)
qed

theorem seeds_consecutive_from_time_of_day_witness:
  "valid_clock example_clock \<and> valid_clock next_second_clock \<and>
   assigned_seeds example_runner (Some [''failure_recovery'']) (Some [''Greedy'']) None
     = Inr [72246, 72247, 72248] \<and>
   assigned_seeds next_second_runner (Some [''failure_recovery'']) (Some [''Greedy'']) None
     = Inr [72247, 72248, 72249]"
  using seeds_consecutive_from_time_of_day [OF valid_example_clock valid_next_second_clock,
    of cwd define_test_scenarios "Some [''failure_recovery'']" "Some [''Greedy'']" None
       cwd define_test_scenarios "Some [''failure_recovery'']" "Some [''Greedy'']" None]
    valid_example_clock valid_next_second_clock
  by (simp add: matrix_size_def length_matrix_cells categories_to_run_def strategies_to_test_def
       protocols_to_test_def or_else_def example_runner_fields basic_catalog_lookup basic_catalog_sizes
       seed_range_def upt_rec example_runner_def next_second_runner_def MLOSimulationRunner_def
       time_of_day_def example_clock_def next_second_clock_def init_runner_def)

subsection \<open>Defaults of the selection\<close>

text \<open>
  C10. For each of the three selections of \<^verbatim>\<open>run_all_tests\<close>, of either class, the empty
  list behaves as no selection: the whole call, console and result, is the same. The
  empty selection stands for all categories of the catalog in catalog order, the four
  strategies and the three protocols of the runner; with all three selections empty the
  basic runner submits its whole matrix of 720 invocations, not an empty run.
\<close>

theorem empty_selection_is_default:
  "run_all_tests env r mw (Some []) ss ps = run_all_tests env r mw None ss ps \<and>
   run_all_tests env r mw cs (Some []) ps = run_all_tests env r mw cs None ps \<and>
   run_all_tests env r mw cs ss (Some []) = run_all_tests env r mw cs ss None \<and>
   extreme_run_all_tests env r mw (Some []) ss ps = extreme_run_all_tests env r mw None ss ps \<and>
   extreme_run_all_tests env r mw cs (Some []) ps = extreme_run_all_tests env r mw cs None ps \<and>
   extreme_run_all_tests env r mw cs ss (Some []) = extreme_run_all_tests env r mw cs ss None \<and>
   categories_to_run r (Some []) = map fst (scenarios r) \<and>
   strategies_to_test r (Some []) = strategies r \<and>
   protocols_to_test r (Some []) = protocols r \<and>
   categories_to_run (MLOSimulationRunner dir now) (Some []) =
     [''baseline'', ''interference'', ''failure_recovery'', ''mobility'', ''scalability'',
      ''critical_performance'', ''network_configuration'', ''protocol_variations''] \<and>
   categories_to_run (MLOExtremeSimulationRunner dir now) (Some []) =
     [''baseline'', ''interference'', ''failure_recovery'', ''mobility'', ''scalability'',
      ''critical_performance'', ''network_configuration'', ''protocol_variations'',
      ''mobility_interference_extreme''] \<and>
   strategies_to_test (MLOSimulationRunner dir now) (Some []) =
     [''RoundRobin'', ''Greedy'', ''Reliability'', ''SLA-MLO''] \<and>
   strategies_to_test (MLOExtremeSimulationRunner dir now) (Some []) =
     [''RoundRobin'', ''Greedy'', ''Reliability'', ''SLA-MLO''] \<and>
   protocols_to_test (MLOSimulationRunner dir now) (Some []) = [''UDP'', ''TCP'', ''Mixed''] \<and>
   protocols_to_test (MLOExtremeSimulationRunner dir now) (Some []) = [''UDP'', ''TCP'', ''Mixed''] \<and>
   map_sum id (length \<circ> submitted)
     (snd (run_all_tests example_pool example_runner None (Some []) (Some []) (Some [])))
     = Inr 720"
proof -
  have sel: "categories_to_run r (Some []) = categories_to_run r None"
    "strategies_to_test r (Some []) = strategies_to_test r None"
    "protocols_to_test r (Some []) = protocols_to_test r None"
    by (simp_all add: categories_to_run_def strategies_to_test_def protocols_to_test_def
        or_else_def)
  have run: "run_all_tests_with lb env r mw (Some []) ss ps = run_all_tests_with lb env r mw None ss ps"
    "run_all_tests_with lb env r mw cs (Some []) ps = run_all_tests_with lb env r mw cs None ps"
    "run_all_tests_with lb env r mw cs ss (Some []) = run_all_tests_with lb env r mw cs ss None"
    for lb
    unfolding run_all_tests_with_def by (simp_all only: sel)
  note basic_run = run [of basic_labels, folded run_all_tests_def]
  note extreme_run = run [of extreme_labels, folded extreme_run_all_tests_def]
  have dflt: "categories_to_run r (Some []) = map fst (scenarios r)"
    "strategies_to_test r (Some []) = strategies r"
    "protocols_to_test r (Some []) = protocols r"
    by (simp_all add: categories_to_run_def strategies_to_test_def protocols_to_test_def
        or_else_def)
  have basic: "categories_to_run (MLOSimulationRunner dir now) (Some []) =
     [''baseline'', ''interference'', ''failure_recovery'', ''mobility'', ''scalability'',
      ''critical_performance'', ''network_configuration'', ''protocol_variations'']"
    by (simp add: categories_to_run_def or_else_def MLOSimulationRunner_def init_runner_def
        define_test_scenarios_def)
  have extreme: "categories_to_run (MLOExtremeSimulationRunner dir now) (Some []) =
     [''baseline'', ''interference'', ''failure_recovery'', ''mobility'', ''scalability'',
      ''critical_performance'', ''network_configuration'', ''protocol_variations'',
      ''mobility_interference_extreme'']"
    by (simp add: categories_to_run_def or_else_def MLOExtremeSimulationRunner_def init_runner_def
        extreme_define_test_scenarios_def)
  have sp: "strategies_to_test (MLOSimulationRunner dir now) (Some []) =
     [''RoundRobin'', ''Greedy'', ''Reliability'', ''SLA-MLO'']"
   "strategies_to_test (MLOExtremeSimulationRunner dir now) (Some []) =
     [''RoundRobin'', ''Greedy'', ''Reliability'', ''SLA-MLO'']"
   "protocols_to_test (MLOSimulationRunner dir now) (Some []) = [''UDP'', ''TCP'', ''Mixed'']"
   "protocols_to_test (MLOExtremeSimulationRunner dir now) (Some []) = [''UDP'', ''TCP'', ''Mixed'']"
    by (simp_all add: strategies_to_test_def protocols_to_test_def or_else_def
        MLOSimulationRunner_def MLOExtremeSimulationRunner_def init_runner_def)
  have keys: "map fst define_test_scenarios =
     [''baseline'', ''interference'', ''failure_recovery'', ''mobility'', ''scalability'',
      ''critical_performance'', ''network_configuration'', ''protocol_variations'']"
    by (simp add: define_test_scenarios_def)
  have n: "map_sum id (length \<circ> submitted)
     (snd (run_all_tests example_pool example_runner None (Some []) (Some []) (Some [])))
     = Inr 720"
    unfolding run_all_tests_def
    by (simp add: run_all_tests_with_result [OF example_runner_start example_pool_size]
        length_seeded length_matrix_cells categories_to_run_def strategies_to_test_def
        protocols_to_test_def or_else_def example_runner_fields basic_catalog_lookup
        basic_catalog_sizes keys)
  from basic_run extreme_run dflt basic extreme sp n show ?thesis by (simp only: simp_thms)
qed

subsection \<open>Exit codes\<close>

text \<open>
  C6, as the specification states it: whenever the process runs to its end, the result is
  a success exactly when the exit code is 0, and a failure result carries the exit code.
  The value that \<^verbatim>\<open>run_single_test\<close> returns is a truth value and nothing else: for exit
  code 137 and for exit code 1 it returns the same value, so the exit code cannot be read
  from the result. And exit code 0 does not always give true: a process that exits with
  code 0 after printing bytes that are not valid text makes \<^verbatim>\<open>subprocess.run\<close> raise, and
  the call returns false; a process that exits with code 0 while the log cannot be written
  makes the call raise.
\<close>

theorem result_is_bare_boolean_counterexample:
  "fst (run_single_test example_runner example_test (exit_env 137) Map.empty) = Returned False \<and>
   fst (run_single_test example_runner example_test (exit_env 1) Map.empty) = Returned False \<and>
   fst (run_single_test example_runner example_test undecodable_env Map.empty) = Returned False \<and>
   fst (run_single_test example_runner example_test full_device_env Map.empty) =
     Raised ''[Errno 28] No space left on device''"
proof -
  have a: "fst (run_single_test example_runner example_test (exit_env code) Map.empty) =
      Returned (code = 0)" for code
    using run_single_test_completed(1) [of "exit_env code" code "''simulation output''" "''Killed''"
        basic_labels example_runner
        "command_of example_test" "test_name_of example_test" "description_of example_test"
        Map.empty]
    by (simp add: test_info_triple run_single_test_def exit_env_def)
  note c = undecodable_output_run(1) [of basic_labels, folded run_single_test_def]
  note d = full_device_run [of basic_labels, folded run_single_test_def]
  from a [of 137] a [of 1] c d show ?thesis by simp
qed

text \<open>
  C6, amended. When \<^verbatim>\<open>subprocess.run\<close> returns, that is, the process has run to its end and
  its captured output has been decoded, the log file is then written without a fault and
  the worker can print, \<^verbatim>\<open>run_single_test\<close> (of either class) returns true exactly when
  the exit code is 0 and
  false for every other exit code. The returned value does not carry the exit code; the
  exit code is kept in the log artifact, whose sixth line is the text
  \<^verbatim>\<open>Return Code:\<close> followed by the code. Exit code 137 gives false and the line
  \<^verbatim>\<open>Return Code: 137\<close>.
\<close>

theorem exit_code_decides_success:
  assumes "proc env = Completed rc out err" and "log_fault env = None"
    and "console_fault env = None"
  shows "fst (run_single_test_with lb r (command, test_name, descr) env fs) = Returned (rc = 0) \<and>
         snd (snd (run_single_test_with lb r (command, test_name, descr) env fs))
             (path_div (log_dir r) (log_file_name r test_name)) =
           Some (join nl
             [details_header lb,
              ''Test Name: '' @ test_name,
              ''Description: '' @ descr,
              ''Timestamp: '' @ now_isoformat env,
              ''Execution Time: '' @ format_f 2 (execution_time env) @ '' seconds'',
              ''Return Code: '' @ str_int rc,
              [],
              ''--- COMMAND ---'', command, [],
              ''--- STDOUT ---'', out,
              ''--- STDERR ---'', err])"
  using run_single_test_completed [OF assms, of lb r command test_name descr fs]
  by (simp add: log_artifact_shape_def)

theorem exit_code_decides_success_witness:
  "proc (exit_env 137) = Completed 137 ''simulation output'' ''Killed'' \<and>
   log_fault (exit_env 137) = None \<and>
   console_fault (exit_env 137) = None \<and>
   fst (run_single_test example_runner example_test (exit_env 137) Map.empty) = Returned False \<and>
   map_option (\<lambda>s. split_on (CHR 0x0A) s ! 5)
     (snd (snd (run_single_test example_runner example_test (exit_env 137) Map.empty))
        (path_div (log_dir example_runner)
           (log_file_name example_runner (test_name_of example_test)))) =
     Some ''Return Code: 137''"
proof -
  have p: "proc (exit_env 137) = Completed 137 ''simulation output'' ''Killed''"
    and q: "log_fault (exit_env 137) = None"
    and c: "console_fault (exit_env 137) = None"
    by (simp_all add: exit_env_def)
  have s: "str_int 137 = ''137''"
    by (simp add: str_int_def str_nat.simps digit_char_def)
  have e: "now_isoformat (exit_env 137) = ''2026-11-04T07:22:47.000123''"
    "execution_time (exit_env 137) = 5 / 4"
    by (simp_all add: exit_env_def)
  note t = exit_code_decides_success [OF p q c, of basic_labels example_runner
      "command_of example_test" "test_name_of example_test" "description_of example_test"
      Map.empty, unfolded test_info_triple, folded run_single_test_def]
  from t have a: "fst (run_single_test example_runner example_test (exit_env 137) Map.empty)
      = Returned False" by simp
  have b: "map_option (\<lambda>s. split_on (CHR 0x0A) s ! 5)
     (snd (snd (run_single_test example_runner example_test (exit_env 137) Map.empty))
        (path_div (log_dir example_runner)
           (log_file_name example_runner (test_name_of example_test)))) =
     Some ''Return Code: 137''"
    apply (simp only: t option.map)
    apply (subst split_on_join_nth5)
    apply (simp_all add: example_test_parts e format_example s basic_labels_def)
    done
  from p q c a b show ?thesis by (simp only: simp_thms)
qed

subsection \<open>Faults of the process launch\<close>

text \<open>
  C5, as the specification states it: whenever the command cannot be launched, the fault
  does not leave \<^verbatim>\<open>run_single_test\<close>, and the failure result records the text of the fault
  in an error field and has no exit code. The value that \<^verbatim>\<open>run_single_test\<close> returns is a
  truth value and nothing else: two launch faults with different texts and a process that
  exits with code 1 all give the same value, so neither the text of the fault nor the
  absence of an exit code can be read from the result. And when the command cannot be
  launched and the append to the log file in the \<^verbatim>\<open>except\<close> clause fails as well, that
  second fault does leave the call.
\<close>

theorem fault_text_not_in_result_counterexample:
  "fst (run_single_test example_runner example_test
          (fault_env ''[Errno 2] No such file or directory'') Map.empty) = Returned False \<and>
   fst (run_single_test example_runner example_test
          (fault_env ''[Errno 12] Cannot allocate memory'') Map.empty) = Returned False \<and>
   fst (run_single_test example_runner example_test (exit_env 1) Map.empty) = Returned False \<and>
   fst (run_single_test example_runner example_test fault_full_device_env Map.empty) =
     Raised ''[Errno 28] No space left on device''"
proof -
  have f: "fst (run_single_test example_runner example_test (fault_env e) Map.empty) = Returned False"
    for e
    using run_single_test_fault [of "fault_env e" e basic_labels example_runner
        "command_of example_test" "test_name_of example_test" "description_of example_test"
        Map.empty]
    by (simp add: test_info_triple run_single_test_def fault_env_def)
  have x: "fst (run_single_test example_runner example_test (exit_env 1) Map.empty) = Returned False"
    using run_single_test_completed(1) [of "exit_env 1" 1 "''simulation output''" "''Killed''"
        basic_labels example_runner
        "command_of example_test" "test_name_of example_test" "description_of example_test"
        Map.empty]
    by (simp add: test_info_triple run_single_test_def exit_env_def)
  note d = fault_full_device_run [of basic_labels, folded run_single_test_def]
  from f x d show ?thesis by simp
qed

text \<open>
  C5, amended. When \<^verbatim>\<open>subprocess.run\<close> raises because the command cannot be launched, and
  the append to the log file in the \<^verbatim>\<open>except\<close> clause (open, write and close) succeeds
  and the worker can print, \<^verbatim>\<open>run_single_test\<close> (of either class) does not raise: it returns false, and the log file
  of the invocation is what it was before (nothing, if it did not exist) followed by a
  line break, the line \<^verbatim>\<open>--- PYTHON EXCEPTION ---\<close> and the text of the fault, whatever
  that text is. No other file changes. The returned value has no field for the text of
  the fault or for an exit code.
\<close>

theorem launch_fault_is_caught:
  assumes "proc env = Launch_fault e" and "handler_fault env = None"
    and "console_fault env = None"
  shows "fst (run_single_test_with lb r (command, test_name, descr) env fs) = Returned False \<and>
         snd (snd (run_single_test_with lb r (command, test_name, descr) env fs)) =
           fs(path_div (log_dir r) (log_file_name r test_name) \<mapsto>
                (case fs (path_div (log_dir r) (log_file_name r test_name)) of
                   None \<Rightarrow> [] | Some old \<Rightarrow> old) @
                nl @ ''--- PYTHON EXCEPTION ---'' @ nl @ e)"
  using run_single_test_fault [OF assms, of lb r command test_name descr fs]
  by (simp del: fun_upd_apply)

theorem launch_fault_is_caught_witness:
  "proc (fault_env ''[Errno 2] No such file or directory'') =
     Launch_fault ''[Errno 2] No such file or directory'' \<and>
   handler_fault (fault_env ''[Errno 2] No such file or directory'') = None \<and>
   console_fault (fault_env ''[Errno 2] No such file or directory'') = None \<and>
   fst (run_single_test example_runner example_test
          (fault_env ''[Errno 2] No such file or directory'') Map.empty) = Returned False \<and>
   snd (snd (run_single_test example_runner example_test
          (fault_env ''[Errno 2] No such file or directory'') Map.empty))
     (path_div (log_dir example_runner)
        (log_file_name example_runner (test_name_of example_test))) =
     Some (nl @ ''--- PYTHON EXCEPTION ---'' @ nl @ ''[Errno 2] No such file or directory'')"
proof -
  have p: "proc (fault_env ''[Errno 2] No such file or directory'') =
     Launch_fault ''[Errno 2] No such file or directory''"
    and q: "handler_fault (fault_env ''[Errno 2] No such file or directory'') = None"
    and c: "console_fault (fault_env ''[Errno 2] No such file or directory'') = None"
    by (simp_all add: fault_env_def)
  note t = launch_fault_is_caught [OF p q c, of basic_labels example_runner
      "command_of example_test" "test_name_of example_test" "description_of example_test"
      Map.empty, unfolded test_info_triple, folded run_single_test_def]
  from t p q c show ?thesis by simp
qed

subsection \<open>The log artifact\<close>

text \<open>
  C8, as the specification states it: whenever the process runs to its end, the log
  artifact has the four sections, the first under the header \<^verbatim>\<open>--- TEST DETAILS ---\<close>. The
  log that \<^verbatim>\<open>run_single_test\<close> of the extreme runner writes begins with the line
  \<^verbatim>\<open>--- EXTREME TEST DETAILS ---\<close>. And a process that runs to its end after printing
  bytes that are not valid text leaves a log that holds the exception section only.
\<close>

theorem extreme_header_counterexample:
  "map_option first_line
     (snd (snd (extreme_run_single_test example_extreme_runner example_test (exit_env 0) Map.empty))
        (path_div (log_dir example_extreme_runner)
           (log_file_name example_extreme_runner (test_name_of example_test)))) =
     Some ''--- EXTREME TEST DETAILS ---'' \<and>
   snd (snd (run_single_test example_runner example_test undecodable_env Map.empty))
     (path_div (log_dir example_runner)
        (log_file_name example_runner (test_name_of example_test))) =
     Some (nl @ ''--- PYTHON EXCEPTION ---'' @ nl @
           ''utf-8 codec cannot decode byte 0xff in position 0: invalid start byte'')"
proof -
  have p: "proc (exit_env 0) = Completed 0 ''simulation output'' ''Killed''"
    and q: "log_fault (exit_env 0) = None"
    and c: "console_fault (exit_env 0) = None"
    by (simp_all add: exit_env_def)
  note t = run_single_test_completed(2) [OF p q c, of extreme_labels example_extreme_runner
      "command_of example_test" "test_name_of example_test" "description_of example_test"
      Map.empty, unfolded test_info_triple, folded extreme_run_single_test_def]
  have a: "map_option first_line
     (snd (snd (extreme_run_single_test example_extreme_runner example_test (exit_env 0) Map.empty))
        (path_div (log_dir example_extreme_runner)
           (log_file_name example_extreme_runner (test_name_of example_test)))) =
     Some ''--- EXTREME TEST DETAILS ---''"
    apply (simp only: t fun_upd_same option.map log_artifact_shape_def join.simps)
    apply (simp add: extreme_labels_def nl_def first_line_def)
    done
  note b = undecodable_output_run(2) [of basic_labels, folded run_single_test_def]
  from a b show ?thesis by (simp only: simp_thms)
qed

text \<open>
  C8, amended. When \<^verbatim>\<open>subprocess.run\<close> returns, that is, the process has run to its end and
  its captured output has been decoded, the log file is then written without a fault and
  the worker can print, the log artifact is the file named by the test name, an
  underscore, the timestamp of the
  run and \<^verbatim>\<open>.log\<close> in the log directory (\<^verbatim>\<open>scratch/logs\<close> under the directory of the
  runner). Its content is, in this order, the details header, which is
  \<^verbatim>\<open>--- TEST DETAILS ---\<close> for \<^verbatim>\<open>MLOSimulationRunner\<close> and \<^verbatim>\<open>--- EXTREME TEST DETAILS ---\<close>
  for \<^verbatim>\<open>MLOExtremeSimulationRunner\<close>, the lines Test Name, Description, Timestamp,
  Execution Time in seconds with two decimals and Return Code, then the section
  \<^verbatim>\<open>--- COMMAND ---\<close> with the command, then \<^verbatim>\<open>--- STDOUT ---\<close> with the captured output,
  then \<^verbatim>\<open>--- STDERR ---\<close> with the captured errors.
\<close>

theorem log_artifact_format:
  assumes "proc env = Completed rc out err" and "log_fault env = None"
    and "console_fault env = None"
  shows
    "snd (snd (run_single_test r (command, test_name, descr) env fs))
       (path_div (log_dir r) (test_name @ ''_'' @ timestamp r @ ''.log'')) =
       Some (log_artifact_shape ''--- TEST DETAILS ---'' test_name descr (now_isoformat env)
               (format_f 2 (execution_time env)) rc command out err) \<and>
     snd (snd (extreme_run_single_test r (command, test_name, descr) env fs))
       (path_div (log_dir r) (test_name @ ''_'' @ timestamp r @ ''.log'')) =
       Some (log_artifact_shape ''--- EXTREME TEST DETAILS ---'' test_name descr (now_isoformat env)
               (format_f 2 (execution_time env)) rc command out err) \<and>
     two_decimals (format_f 2 (execution_time env)) \<and>
     log_dir (init_runner dir now catalog) = path_div (path_div dir ''scratch'') ''logs''"
  using run_single_test_completed(2) [OF assms, of basic_labels r command test_name descr fs]
    run_single_test_completed(2) [OF assms, of extreme_labels r command test_name descr fs]
    two_decimals_format_f [of "execution_time env"]
  by (simp add: run_single_test_def extreme_run_single_test_def log_file_name_def
      basic_labels_def extreme_labels_def init_runner_def)

theorem log_artifact_format_witness:
  "proc (exit_env 137) = Completed 137 ''simulation output'' ''Killed'' \<and>
   log_fault (exit_env 137) = None \<and>
   console_fault (exit_env 137) = None \<and>
   snd (snd (run_single_test example_runner example_test (exit_env 137) Map.empty))
     \<lparr>rooted = False,
      parts = [''scratch'', ''logs'',
               ''failure_recovery_random_failures_mixed_tid_Greedy_UDP_72246_20261104_072245.log'']\<rparr> =
     Some (log_artifact_shape ''--- TEST DETAILS ---''
             ''failure_recovery_random_failures_mixed_tid_Greedy_UDP_72246''
             ''Random failures (10% chance per second) - Mixed TID''
             ''2026-11-04T07:22:47.000123'' ''1.25'' 137
             (command_of example_test) ''simulation output'' ''Killed'')"
proof -
  have p: "proc (exit_env 137) = Completed 137 ''simulation output'' ''Killed''"
    and q: "log_fault (exit_env 137) = None"
    and c: "console_fault (exit_env 137) = None"
    by (simp_all add: exit_env_def)
  have s: "str_int 137 = ''137''"
    by (simp add: str_int_def str_nat.simps digit_char_def)
  have e: "now_isoformat (exit_env 137) = ''2026-11-04T07:22:47.000123''"
    "execution_time (exit_env 137) = 5 / 4"
    by (simp_all add: exit_env_def)
  have l: "path_div (log_dir example_runner)
      (''failure_recovery_random_failures_mixed_tid_Greedy_UDP_72246'' @ ''_'' @
       timestamp example_runner @ ''.log'') =
     \<lparr>rooted = False,
      parts = [''scratch'', ''logs'',
               ''failure_recovery_random_failures_mixed_tid_Greedy_UDP_72246_20261104_072245.log'']\<rparr>"
    using example_log_path by (simp only: log_file_name_def example_test_parts)
  have tr: "(command_of example_test,
             ''failure_recovery_random_failures_mixed_tid_Greedy_UDP_72246'',
             ''Random failures (10% chance per second) - Mixed TID'') = example_test"
    using test_info_triple [of example_test] by (simp only: example_test_parts)
  note t = log_artifact_format [OF p q c, of example_runner
      "command_of example_test"
      "''failure_recovery_random_failures_mixed_tid_Greedy_UDP_72246''"
      "''Random failures (10% chance per second) - Mixed TID''"
      Map.empty, unfolded tr l e s format_example]
  from t p q c show ?thesis by (simp only: simp_thms)
qed

subsection \<open>An empty batch\<close>




end
